theory Spec2Isabelle
  imports Main
begin

section \<open>Platform values\<close>

text \<open>
  A \<open>Date\<close> of the internal model is a valid ECMAScript Date, given by its time value in
  milliseconds.  The wire carries the text produced by \<open>toISOString\<close>; ECMAScript fixes
  \<open>new Date(d.toISOString())\<close> to the time value of \<open>d\<close>, so the ISO text is represented
  by the instant it denotes.  The two types are kept apart, as in the source
  (\<open>Date\<close> inside, \<open>string\<close> on the wire).
\<close>

datatype date = Date int

datatype iso8601 = ISO int

fun toISOString :: "date \<Rightarrow> iso8601" where
  "toISOString (Date t) = ISO t"

fun new_Date :: "iso8601 \<Rightarrow> date" where
  "new_Date (ISO t) = Date t"

text \<open>
  A text is a \<open>string\<close>, a list of characters with the code points 0 to 255 (Basic
  Latin and Latin-1 Supplement).  \<open>toLowerCase\<close> moves the code points of the capital
  letters, 65 to 90 and 192 to 222 without the multiplication sign 215, up by 32 and
  leaves every other character of this range alone.  The class \<open>\s\<close> of a regular
  expression holds, in this range, the code points 9 to 13 (tab, line feed, vertical
  tab, form feed, carriage return), 32 (space) and 160 (no-break space).
\<close>

definition lower_char :: "char \<Rightarrow> char" where
  "lower_char c =
     (if (65 \<le> (of_char c :: nat) \<and> (of_char c :: nat) \<le> 90) \<or>
         (192 \<le> (of_char c :: nat) \<and> (of_char c :: nat) \<le> 222 \<and>
          (of_char c :: nat) \<noteq> 215)
      then char_of ((of_char c :: nat) + 32) else c)"

definition toLowerCase :: "string \<Rightarrow> string" where
  "toLowerCase s = map lower_char s"

definition is_space :: "char \<Rightarrow> bool" where
  "is_space c \<longleftrightarrow> (of_char c :: nat) \<in> {9, 10, 11, 12, 13, 32, 160}"

text \<open>
  \<open>s.replace(/\s+/g, '_')\<close>: the scan goes left to right; at a whitespace character the
  longest run of whitespace is consumed and one underscore is written.
\<close>

function replace_ws :: "string \<Rightarrow> string" where
  "replace_ws [] = []"
| "replace_ws (c # cs) =
     (if is_space c then CHR ''_'' # replace_ws (dropWhile is_space cs)
      else c # replace_ws cs)"
  by pat_completeness auto
termination
  by (relation "measure length") (auto simp: length_dropWhile_le less_Suc_eq_le)

section \<open>The internal diagram model\<close>

text \<open>
  Modelled from the spec: the declarations of \<open>Diagram\<close>, \<open>DBTable\<close>, \<open>DBField\<close>,
  \<open>DBIndex\<close>, \<open>DBRelationship\<close>, \<open>DBDependency\<close>, \<open>Area\<close>, \<open>DBCustomType\<close>,
  \<open>DBCustomTypeField\<close> and \<open>Note\<close> live in \<open>lib/domain\<close>, outside the sources at hand.
  The records below carry the properties of section 3 of the specification, which are
  the properties that \<open>deserializeDiagram\<close> writes when it builds a \<open>Diagram\<close>.
  Coordinates and sizes are numbers that the codec only copies; a \<open>createdAt\<close> is a
  millisecond count.  An optional property is an \<open>option\<close> (\<open>None\<close> for \<open>undefined\<close>).
\<close>

record data_type =
  dt_id :: string
  dt_name :: string

record db_field =
  fld_id :: string
  fld_name :: string
  fld_type :: data_type
  fld_primaryKey :: bool
  fld_unique :: bool
  fld_nullable :: bool
  fld_createdAt :: int
  fld_check :: "string option"
  fld_default :: "string option"
  fld_collation :: "string option"
  fld_comments :: "string option"

record db_index =
  idx_id :: string
  idx_name :: string
  idx_unique :: bool
  idx_fieldIds :: "string list"
  idx_createdAt :: int

record db_table =
  tbl_id :: string
  tbl_name :: string
  tbl_schema :: "string option"
  tbl_x :: int
  tbl_y :: int
  tbl_color :: string
  tbl_isView :: bool
  tbl_createdAt :: int
  tbl_fields :: "db_field list"
  tbl_indexes :: "db_index list"
  tbl_comments :: "string option"

record db_relationship =
  rel_id :: string
  rel_name :: string
  rel_sourceTableId :: string
  rel_targetTableId :: string
  rel_sourceFieldId :: string
  rel_targetFieldId :: string
  rel_sourceCardinality :: string
  rel_targetCardinality :: string
  rel_createdAt :: int

record db_dependency =
  dep_id :: string
  dep_tableId :: string
  dep_dependentTableId :: string
  dep_createdAt :: int

record area =
  area_id :: string
  area_name :: string
  area_x :: int
  area_y :: int
  area_width :: int
  area_height :: int
  area_color :: string

record custom_type_field =
  ctf_field :: string
  ctf_type :: string

record db_custom_type =
  ct_id :: string
  ct_name :: string
  ct_schema :: "string option"
  ct_kind :: string
  ct_fields :: "custom_type_field list option"

record diagram_note =
  note_id :: string
  note_content :: string
  note_x :: int
  note_y :: int
  note_width :: int
  note_height :: int
  note_color :: string

record diagram =
  dg_id :: string
  dg_name :: string
  dg_databaseType :: string
  dg_databaseEdition :: "string option"
  dg_createdAt :: date
  dg_updatedAt :: date
  dg_tables :: "db_table list option"
  dg_relationships :: "db_relationship list option"
  dg_dependencies :: "db_dependency list option"
  dg_areas :: "area list option"
  dg_customTypes :: "db_custom_type list option"
  dg_notes :: "diagram_note list option"

section \<open>The wire model\<close>

text \<open>
  One record for each \<open>Backend...\<close> interface of \<open>sync-service.ts\<close>.  A wire record has
  the properties that \<open>deserializeDiagram\<close> reads and those that \<open>serializeDiagram\<close>
  writes: \<open>diagramId\<close> on every entity, and on an index the \<open>createdAt\<close> that travels
  with the index object although \<open>BackendIndex\<close> does not declare it.
\<close>

record backend_field =
  wf_id :: string
  wf_name :: string
  wf_type :: "string + data_type"
  wf_primaryKey :: bool
  wf_unique :: bool
  wf_nullable :: bool
  wf_createdAt :: "int option"
  wf_check :: "string option"
  wf_default :: "string option"
  wf_collation :: "string option"
  wf_comments :: "string option"

record backend_index =
  wi_id :: string
  wi_name :: string
  wi_unique :: bool
  wi_fieldIds :: "string list"
  wi_createdAt :: "int option"

record backend_table =
  wt_id :: string
  wt_diagramId :: "string option"
  wt_name :: string
  wt_schema :: "string option"
  wt_x :: int
  wt_y :: int
  wt_color :: string
  wt_isView :: bool
  wt_createdAt :: "int option"
  wt_fields :: "backend_field list"
  wt_indexes :: "backend_index list option"
  wt_comments :: "string option"

record backend_relationship =
  wr_id :: string
  wr_diagramId :: "string option"
  wr_name :: string
  wr_sourceTableId :: string
  wr_targetTableId :: string
  wr_sourceFieldId :: string
  wr_targetFieldId :: string
  wr_sourceCardinality :: string
  wr_targetCardinality :: string
  wr_createdAt :: "int option"

record backend_dependency =
  wd_id :: string
  wd_diagramId :: "string option"
  wd_tableId :: string
  wd_dependentTableId :: string
  wd_createdAt :: "int option"

record backend_area =
  wa_id :: string
  wa_diagramId :: "string option"
  wa_name :: string
  wa_x :: int
  wa_y :: int
  wa_width :: int
  wa_height :: int
  wa_color :: string

record backend_custom_type =
  wc_id :: string
  wc_diagramId :: "string option"
  wc_name :: string
  wc_schema :: "string option"
  wc_kind :: string
  wc_fields :: "custom_type_field list option"

record backend_note =
  wn_id :: string
  wn_diagramId :: "string option"
  wn_content :: string
  wn_x :: int
  wn_y :: int
  wn_width :: int
  wn_height :: int
  wn_color :: string

record backend_diagram =
  w_id :: string
  w_name :: string
  w_databaseType :: string
  w_databaseEdition :: "string option"
  w_createdAt :: iso8601
  w_updatedAt :: iso8601
  w_tables :: "backend_table list option"
  w_relationships :: "backend_relationship list option"
  w_dependencies :: "backend_dependency list option"
  w_areas :: "backend_area list option"
  w_customTypes :: "backend_custom_type list option"
  w_notes :: "backend_note list option"

section \<open>The wire codec\<close>

subsection \<open>Encoding: \<open>serializeDiagram\<close>\<close>

text \<open>
  \<open>fields: t.fields\<close> and \<open>indexes: t.indexes\<close> hand the internal objects to the wire as
  they are.  Read through \<open>BackendField\<close>, an internal field has a structured type and a
  \<open>createdAt\<close>; an internal index keeps its \<open>createdAt\<close> property.
\<close>

definition field_on_wire :: "db_field \<Rightarrow> backend_field" where
  "field_on_wire f =
     \<lparr> wf_id = fld_id f, wf_name = fld_name f, wf_type = Inr (fld_type f),
       wf_primaryKey = fld_primaryKey f, wf_unique = fld_unique f,
       wf_nullable = fld_nullable f, wf_createdAt = Some (fld_createdAt f),
       wf_check = fld_check f, wf_default = fld_default f,
       wf_collation = fld_collation f, wf_comments = fld_comments f \<rparr>"

definition index_on_wire :: "db_index \<Rightarrow> backend_index" where
  "index_on_wire i =
     \<lparr> wi_id = idx_id i, wi_name = idx_name i, wi_unique = idx_unique i,
       wi_fieldIds = idx_fieldIds i, wi_createdAt = Some (idx_createdAt i) \<rparr>"

text \<open>The arrow functions of \<open>serializeDiagram\<close>, one for each collection.\<close>

definition serialize_table :: "string \<Rightarrow> db_table \<Rightarrow> backend_table" where
  "serialize_table diagramId t =
     \<lparr> wt_id = tbl_id t, wt_diagramId = Some diagramId, wt_name = tbl_name t,
       wt_schema = tbl_schema t, wt_x = tbl_x t, wt_y = tbl_y t, wt_color = tbl_color t,
       wt_isView = tbl_isView t, wt_createdAt = None,
       wt_fields = map field_on_wire (tbl_fields t),
       wt_indexes = Some (map index_on_wire (tbl_indexes t)),
       wt_comments = tbl_comments t \<rparr>"

definition serialize_relationship :: "string \<Rightarrow> db_relationship \<Rightarrow> backend_relationship" where
  "serialize_relationship diagramId r =
     \<lparr> wr_id = rel_id r, wr_diagramId = Some diagramId, wr_name = rel_name r,
       wr_sourceTableId = rel_sourceTableId r, wr_targetTableId = rel_targetTableId r,
       wr_sourceFieldId = rel_sourceFieldId r, wr_targetFieldId = rel_targetFieldId r,
       wr_sourceCardinality = rel_sourceCardinality r,
       wr_targetCardinality = rel_targetCardinality r, wr_createdAt = None \<rparr>"

definition serialize_dependency :: "string \<Rightarrow> db_dependency \<Rightarrow> backend_dependency" where
  "serialize_dependency diagramId d =
     \<lparr> wd_id = dep_id d, wd_diagramId = Some diagramId, wd_tableId = dep_tableId d,
       wd_dependentTableId = dep_dependentTableId d, wd_createdAt = None \<rparr>"

definition serialize_area :: "string \<Rightarrow> area \<Rightarrow> backend_area" where
  "serialize_area diagramId a =
     \<lparr> wa_id = area_id a, wa_diagramId = Some diagramId, wa_name = area_name a,
       wa_x = area_x a, wa_y = area_y a, wa_width = area_width a,
       wa_height = area_height a, wa_color = area_color a \<rparr>"

definition serialize_custom_type :: "string \<Rightarrow> db_custom_type \<Rightarrow> backend_custom_type" where
  "serialize_custom_type diagramId ct =
     \<lparr> wc_id = ct_id ct, wc_diagramId = Some diagramId, wc_name = ct_name ct,
       wc_schema = ct_schema ct, wc_kind = ct_kind ct, wc_fields = ct_fields ct \<rparr>"

definition serialize_note :: "string \<Rightarrow> diagram_note \<Rightarrow> backend_note" where
  "serialize_note diagramId n =
     \<lparr> wn_id = note_id n, wn_diagramId = Some diagramId, wn_content = note_content n,
       wn_x = note_x n, wn_y = note_y n, wn_width = note_width n,
       wn_height = note_height n, wn_color = note_color n \<rparr>"

text \<open>\<open>xs?.map(f)\<close> is \<open>map_option (map f) xs\<close>: an absent collection stays absent.\<close>

definition serializeDiagram :: "diagram \<Rightarrow> backend_diagram" where
  "serializeDiagram d =
     \<lparr> w_id = dg_id d, w_name = dg_name d, w_databaseType = dg_databaseType d,
       w_databaseEdition = dg_databaseEdition d,
       w_createdAt = toISOString (dg_createdAt d),
       w_updatedAt = toISOString (dg_updatedAt d),
       w_tables = map_option (map (serialize_table (dg_id d))) (dg_tables d),
       w_relationships =
         map_option (map (serialize_relationship (dg_id d))) (dg_relationships d),
       w_dependencies =
         map_option (map (serialize_dependency (dg_id d))) (dg_dependencies d),
       w_areas = map_option (map (serialize_area (dg_id d))) (dg_areas d),
       w_customTypes =
         map_option (map (serialize_custom_type (dg_id d))) (dg_customTypes d),
       w_notes = map_option (map (serialize_note (dg_id d))) (dg_notes d) \<rparr>"

subsection \<open>Decoding: \<open>deserializeDiagram\<close>\<close>

text \<open>
  \<open>Date.now()\<close> is read once for every value that has to be stamped, and two readings
  may differ.  A clock gives the reading of the \<open>n\<close>-th call made during one decode;
  the decoder threads the number of calls made so far, in the order in which the
  object literals of the source are evaluated.
\<close>

type_synonym clock = "nat \<Rightarrow> int"

text \<open>\<open>c || Date.now()\<close>: an absent \<open>createdAt\<close> and the number 0 are both falsy.\<close>

definition or_now :: "clock \<Rightarrow> int option \<Rightarrow> nat \<Rightarrow> int \<times> nat" where
  "or_now clk c n =
     (case c of
        None \<Rightarrow> (clk n, Suc n)
      | Some v \<Rightarrow> if v \<noteq> 0 then (v, n) else (clk n, Suc n))"

fun map_timed :: "('a \<Rightarrow> nat \<Rightarrow> 'b \<times> nat) \<Rightarrow> 'a list \<Rightarrow> nat \<Rightarrow> 'b list \<times> nat" where
  "map_timed f [] n = ([], n)"
| "map_timed f (x # xs) n =
     (case f x n of (y, n1) \<Rightarrow>
        (case map_timed f xs n1 of (ys, n2) \<Rightarrow> (y # ys, n2)))"

definition opt_map_timed ::
  "('a \<Rightarrow> nat \<Rightarrow> 'b \<times> nat) \<Rightarrow> 'a list option \<Rightarrow> nat \<Rightarrow> 'b list option \<times> nat" where
  "opt_map_timed f xs n =
     (case xs of
        None \<Rightarrow> (None, n)
      | Some l \<Rightarrow> (case map_timed f l n of (ys, n1) \<Rightarrow> (Some ys, n1)))"

definition fieldType :: "string + data_type \<Rightarrow> data_type" where
  "fieldType ty =
     (case ty of
        Inl s \<Rightarrow> \<lparr> dt_id = replace_ws (toLowerCase s), dt_name = s \<rparr>
      | Inr p \<Rightarrow> p)"

definition deserialize_field :: "clock \<Rightarrow> backend_field \<Rightarrow> nat \<Rightarrow> db_field \<times> nat" where
  "deserialize_field clk f n =
     (case or_now clk (wf_createdAt f) n of (c, n1) \<Rightarrow>
        (\<lparr> fld_id = wf_id f, fld_name = wf_name f, fld_type = fieldType (wf_type f),
           fld_primaryKey = wf_primaryKey f, fld_unique = wf_unique f,
           fld_nullable = wf_nullable f, fld_createdAt = c,
           fld_check = wf_check f, fld_default = wf_default f,
           fld_collation = wf_collation f, fld_comments = wf_comments f \<rparr>, n1))"

definition deserialize_index :: "clock \<Rightarrow> backend_index \<Rightarrow> nat \<Rightarrow> db_index \<times> nat" where
  "deserialize_index clk i n =
     (\<lparr> idx_id = wi_id i, idx_name = wi_name i, idx_unique = wi_unique i,
        idx_fieldIds = wi_fieldIds i, idx_createdAt = clk n \<rparr>, Suc n)"

definition deserialize_table :: "clock \<Rightarrow> backend_table \<Rightarrow> nat \<Rightarrow> db_table \<times> nat" where
  "deserialize_table clk t n =
     (case or_now clk (wt_createdAt t) n of (c, n1) \<Rightarrow>
      case map_timed (deserialize_field clk) (wt_fields t) n1 of (fs, n2) \<Rightarrow>
      case (case wt_indexes t of
              None \<Rightarrow> ([], n2)
            | Some ixs \<Rightarrow> map_timed (deserialize_index clk) ixs n2) of (ixs, n3) \<Rightarrow>
        (\<lparr> tbl_id = wt_id t, tbl_name = wt_name t, tbl_schema = wt_schema t,
           tbl_x = wt_x t, tbl_y = wt_y t, tbl_color = wt_color t,
           tbl_isView = wt_isView t, tbl_createdAt = c, tbl_fields = fs,
           tbl_indexes = ixs, tbl_comments = wt_comments t \<rparr>, n3))"

definition deserialize_relationship ::
  "clock \<Rightarrow> backend_relationship \<Rightarrow> nat \<Rightarrow> db_relationship \<times> nat" where
  "deserialize_relationship clk r n =
     (case or_now clk (wr_createdAt r) n of (c, n1) \<Rightarrow>
        (\<lparr> rel_id = wr_id r, rel_name = wr_name r,
           rel_sourceTableId = wr_sourceTableId r, rel_targetTableId = wr_targetTableId r,
           rel_sourceFieldId = wr_sourceFieldId r, rel_targetFieldId = wr_targetFieldId r,
           rel_sourceCardinality = wr_sourceCardinality r,
           rel_targetCardinality = wr_targetCardinality r, rel_createdAt = c \<rparr>, n1))"

definition deserialize_dependency ::
  "clock \<Rightarrow> backend_dependency \<Rightarrow> nat \<Rightarrow> db_dependency \<times> nat" where
  "deserialize_dependency clk d n =
     (case or_now clk (wd_createdAt d) n of (c, n1) \<Rightarrow>
        (\<lparr> dep_id = wd_id d, dep_tableId = wd_tableId d,
           dep_dependentTableId = wd_dependentTableId d, dep_createdAt = c \<rparr>, n1))"

definition deserialize_area :: "backend_area \<Rightarrow> area" where
  "deserialize_area a =
     \<lparr> area_id = wa_id a, area_name = wa_name a, area_x = wa_x a, area_y = wa_y a,
       area_width = wa_width a, area_height = wa_height a, area_color = wa_color a \<rparr>"

definition deserialize_custom_type :: "backend_custom_type \<Rightarrow> db_custom_type" where
  "deserialize_custom_type ct =
     \<lparr> ct_id = wc_id ct, ct_name = wc_name ct, ct_schema = wc_schema ct,
       ct_kind = wc_kind ct, ct_fields = wc_fields ct \<rparr>"

definition deserialize_note :: "backend_note \<Rightarrow> diagram_note" where
  "deserialize_note n =
     \<lparr> note_id = wn_id n, note_content = wn_content n, note_x = wn_x n, note_y = wn_y n,
       note_width = wn_width n, note_height = wn_height n, note_color = wn_color n \<rparr>"

definition deserialize_from :: "clock \<Rightarrow> backend_diagram \<Rightarrow> nat \<Rightarrow> diagram \<times> nat" where
  "deserialize_from clk data n =
     (case opt_map_timed (deserialize_table clk) (w_tables data) n of (ts, n1) \<Rightarrow>
      case opt_map_timed (deserialize_relationship clk) (w_relationships data) n1
        of (rs, n2) \<Rightarrow>
      case opt_map_timed (deserialize_dependency clk) (w_dependencies data) n2
        of (ds, n3) \<Rightarrow>
        (\<lparr> dg_id = w_id data, dg_name = w_name data,
           dg_databaseType = w_databaseType data,
           dg_databaseEdition = w_databaseEdition data,
           dg_createdAt = new_Date (w_createdAt data),
           dg_updatedAt = new_Date (w_updatedAt data),
           dg_tables = ts, dg_relationships = rs, dg_dependencies = ds,
           dg_areas = map_option (map deserialize_area) (w_areas data),
           dg_customTypes = map_option (map deserialize_custom_type) (w_customTypes data),
           dg_notes = map_option (map deserialize_note) (w_notes data) \<rparr>, n3))"

definition deserializeDiagram :: "clock \<Rightarrow> backend_diagram \<Rightarrow> diagram" where
  "deserializeDiagram clk data = fst (deserialize_from clk data 0)"

section \<open>Transport\<close>

text \<open>
  What a rejected promise or a \<open>throw\<close> carries.  \<open>Error\<close> is built by the client with
  \<open>new Error(message)\<close>; a \<open>TypeError\<close> is raised by the engine (a property read on
  \<open>null\<close>, or \<open>fetch\<close> when the network fails) and a \<open>SyntaxError\<close> by
  \<open>response.json()\<close> on a body that is not JSON.
\<close>

datatype js_error = Error string | TypeError string | SyntaxError string

datatype http_method = GET | POST

record request =
  rq_method :: http_method
  rq_url :: string
  rq_body :: "backend_diagram option"

text \<open>
  The outcome of \<open>response.json()\<close>: the promise rejects, or it yields \<open>null\<close>, or an
  object read through the shape the caller expects.
\<close>

datatype 'a json = Unparseable | JsonNull | Json 'a

text \<open>
  A response is read through \<open>ok\<close>, \<open>status\<close>, \<open>statusText\<close> and \<open>json()\<close>.  With
  \<open>ok\<close> false the body is read as an error payload, of which the client uses the
  \<open>error\<close> property (\<open>None\<close> when the object has none); with \<open>ok\<close> true it is read as
  the payload of the endpoint.
\<close>

datatype 'a response =
    Success nat string "'a json"
  | Failure nat string "string option json"

fun ok :: "'a response \<Rightarrow> bool" where
  "ok (Success _ _ _) = True"
| "ok (Failure _ _ _) = False"

fun status :: "'a response \<Rightarrow> nat" where
  "status (Success s _ _) = s"
| "status (Failure s _ _) = s"

fun statusText :: "'a response \<Rightarrow> string" where
  "statusText (Success _ t _) = t"
| "statusText (Failure _ t _) = t"

text \<open>\<open>fetch\<close> rejects (\<open>Inl\<close>) or resolves with a response (\<open>Inr\<close>).\<close>

type_synonym 'a fetch = "request \<Rightarrow> js_error + 'a response"

text \<open>The decimal text of a number, as a template literal prints \<open>response.status\<close>.\<close>

function decimal :: "nat \<Rightarrow> string" where
  "decimal n =
     (if n < 10 then [char_of (48 + n)]
      else decimal (n div 10) @ [char_of (48 + n mod 10)])"
  by pat_completeness auto
termination
  by (relation "measure id") auto

definition null_read :: "string \<Rightarrow> js_error" where
  "null_read property =
     TypeError (''Cannot read properties of null (reading '' @ property @ '')'')"

definition not_json :: js_error where
  "not_json = SyntaxError ''Unexpected token in JSON''"

section \<open>The remote sync client: \<open>SyncService\<close>\<close>

record sync_config =
  cfg_apiUrl :: string
  cfg_enabled :: bool

record push_response =
  pr_success :: bool
  pr_diagram_id :: string

record backend_list_item =
  li_id :: string
  li_name :: string
  li_database_type :: string
  li_database_edition :: "string option"
  li_created_at :: iso8601
  li_updated_at :: iso8601

record diagram_list_item =
  dli_id :: string
  dli_name :: string
  dli_databaseType :: string
  dli_databaseEdition :: "string option"
  dli_createdAt :: date
  dli_updatedAt :: date

definition isEnabled :: "sync_config \<Rightarrow> bool" where
  "isEnabled config \<longleftrightarrow> cfg_enabled config \<and> cfg_apiUrl config \<noteq> []"

definition not_enabled :: js_error where
  "not_enabled = Error ''Sync service is not enabled''"

text \<open>
  The block under \<open>if (!response.ok)\<close>, shared by the three operations:
  \<open>response.json().catch(...)\<close> replaces a body that does not parse by an object whose
  \<open>error\<close> is the status line, and \<open>error.error || fallback\<close> takes the fallback text
  when the property is absent or empty.
\<close>

definition json_or_status_line :: "nat \<Rightarrow> string \<Rightarrow> string option json \<Rightarrow> string option json" where
  "json_or_status_line st txt body =
     (case body of
        Unparseable \<Rightarrow> Json (Some (''HTTP '' @ decimal st @ '': '' @ txt))
      | JsonNull \<Rightarrow> JsonNull
      | Json e \<Rightarrow> Json e)"

definition error_of :: "string \<Rightarrow> string option json \<Rightarrow> js_error" where
  "error_of fallback body =
     (case body of
        Json (Some m) \<Rightarrow> if m \<noteq> [] then Error m else Error fallback
      | Json None \<Rightarrow> Error fallback
      | _ \<Rightarrow> null_read ''error'')"

definition not_ok :: "string \<Rightarrow> nat \<Rightarrow> string \<Rightarrow> string option json \<Rightarrow> js_error" where
  "not_ok fallback st txt body = error_of fallback (json_or_status_line st txt body)"

subsection \<open>\<open>push\<close>\<close>

definition push_request :: "sync_config \<Rightarrow> diagram \<Rightarrow> request" where
  "push_request config d =
     \<lparr> rq_method = POST, rq_url = cfg_apiUrl config @ ''/api/sync/push'',
       rq_body = Some (serializeDiagram d) \<rparr>"

text \<open>What \<open>push\<close> does once \<open>fetch\<close> has settled; \<open>None\<close> is a body that is \<open>null\<close>.\<close>

definition push_result ::
  "js_error + push_response response \<Rightarrow> js_error + push_response option" where
  "push_result outcome =
     (case outcome of
        Inl e \<Rightarrow> Inl e
      | Inr (Failure st txt body) \<Rightarrow> Inl (not_ok ''Failed to push diagram'' st txt body)
      | Inr (Success st txt body) \<Rightarrow>
          (case body of
             Unparseable \<Rightarrow> Inl not_json
           | JsonNull \<Rightarrow> Inr None
           | Json r \<Rightarrow> Inr (Some r)))"

text \<open>
  Every operation of the client takes the requests issued so far and returns them,
  extended by its own request if it makes one.
\<close>

definition service_push ::
  "sync_config \<Rightarrow> push_response fetch \<Rightarrow> diagram \<Rightarrow> request list \<Rightarrow>
   (js_error + push_response option) \<times> request list" where
  "service_push config fetch d net =
     (if \<not> isEnabled config then (Inl not_enabled, net)
      else (push_result (fetch (push_request config d)), net @ [push_request config d]))"

subsection \<open>\<open>pull\<close>\<close>

definition pull_request :: "sync_config \<Rightarrow> string \<Rightarrow> request" where
  "pull_request config diagramId =
     \<lparr> rq_method = GET, rq_url = cfg_apiUrl config @ ''/api/sync/pull/'' @ diagramId,
       rq_body = None \<rparr>"

definition pull_result ::
  "clock \<Rightarrow> js_error + backend_diagram response \<Rightarrow> js_error + diagram option" where
  "pull_result clk outcome =
     (case outcome of
        Inl e \<Rightarrow> Inl e
      | Inr r \<Rightarrow>
          if status r = 404 then Inr None
          else (case r of
                  Failure st txt body \<Rightarrow> Inl (not_ok ''Failed to pull diagram'' st txt body)
                | Success st txt body \<Rightarrow>
                    (case body of
                       Unparseable \<Rightarrow> Inl not_json
                     | JsonNull \<Rightarrow> Inl (null_read ''id'')
                     | Json data \<Rightarrow> Inr (Some (deserializeDiagram clk data)))))"

definition service_pull ::
  "sync_config \<Rightarrow> clock \<Rightarrow> backend_diagram fetch \<Rightarrow> string \<Rightarrow> request list \<Rightarrow>
   (js_error + diagram option) \<times> request list" where
  "service_pull config clk fetch diagramId net =
     (if \<not> isEnabled config then (Inl not_enabled, net)
      else (pull_result clk (fetch (pull_request config diagramId)),
            net @ [pull_request config diagramId]))"

subsection \<open>\<open>listDiagrams\<close>\<close>

definition list_request :: "sync_config \<Rightarrow> request" where
  "list_request config =
     \<lparr> rq_method = GET, rq_url = cfg_apiUrl config @ ''/api/sync/diagrams'',
       rq_body = None \<rparr>"

definition list_item :: "backend_list_item \<Rightarrow> diagram_list_item" where
  "list_item d =
     \<lparr> dli_id = li_id d, dli_name = li_name d, dli_databaseType = li_database_type d,
       dli_databaseEdition = li_database_edition d,
       dli_createdAt = new_Date (li_created_at d),
       dli_updatedAt = new_Date (li_updated_at d) \<rparr>"

definition list_result ::
  "js_error + backend_list_item list response \<Rightarrow> js_error + diagram_list_item list" where
  "list_result outcome =
     (case outcome of
        Inl e \<Rightarrow> Inl e
      | Inr (Failure st txt body) \<Rightarrow> Inl (not_ok ''Failed to list diagrams'' st txt body)
      | Inr (Success st txt body) \<Rightarrow>
          (case body of
             Unparseable \<Rightarrow> Inl not_json
           | JsonNull \<Rightarrow> Inl (null_read ''map'')
           | Json diagrams \<Rightarrow> Inr (map list_item diagrams)))"

definition service_listDiagrams ::
  "sync_config \<Rightarrow> backend_list_item list fetch \<Rightarrow> request list \<Rightarrow>
   (js_error + diagram_list_item list) \<times> request list" where
  "service_listDiagrams config fetch net =
     (if \<not> isEnabled config then (Inl not_enabled, net)
      else (list_result (fetch (list_request config)), net @ [list_request config]))"

section \<open>The sync coordinator: \<open>useSync\<close>\<close>

text \<open>
  The two refs of the hook, together with what the hook does to the outside: the
  requests issued and the calls made to \<open>onSyncSuccess\<close> and \<open>onSyncError\<close>, in order.
  The console output is not recorded.
\<close>

datatype sync_event = SyncSuccess string | SyncError js_error

record sync_world =
  isSyncingRef :: bool
  lastSyncedDiagramRef :: "string option"
  network :: "request list"
  callbacks :: "sync_event list"

text \<open>
  \<open>UseSyncOptions\<close>: the flag \<open>enabled\<close> and whether each callback was supplied.  The
  debounce delay only concerns the debounced wrapper around \<open>pushDiagram\<close>.
\<close>

record sync_options =
  opt_enabled :: bool
  opt_onSyncSuccess :: bool
  opt_onSyncError :: bool

definition default_options :: sync_options where
  "default_options =
     \<lparr> opt_enabled = True, opt_onSyncSuccess = False, opt_onSyncError = False \<rparr>"

text \<open>\<open>onSyncSuccess?.(id)\<close> and \<open>onSyncError?.(error)\<close>.\<close>

definition call_onSyncSuccess :: "sync_options \<Rightarrow> string \<Rightarrow> sync_world \<Rightarrow> sync_world" where
  "call_onSyncSuccess opts diagramId st =
     (if opt_onSyncSuccess opts
      then st\<lparr>callbacks := callbacks st @ [SyncSuccess diagramId]\<rparr> else st)"

definition call_onSyncError :: "sync_options \<Rightarrow> js_error \<Rightarrow> sync_world \<Rightarrow> sync_world" where
  "call_onSyncError opts e st =
     (if opt_onSyncError opts
      then st\<lparr>callbacks := callbacks st @ [SyncError e]\<rparr> else st)"

text \<open>\<open>!syncService?.isEnabled || !enabled\<close>; \<open>getSyncService()\<close> may return \<open>null\<close>.\<close>

definition sync_off :: "sync_config option \<Rightarrow> sync_options \<Rightarrow> bool" where
  "sync_off syncService opts \<longleftrightarrow>
     (case syncService of None \<Rightarrow> True | Some config \<Rightarrow> \<not> isEnabled config)
     \<or> \<not> opt_enabled opts"

subsection \<open>\<open>pushDiagram\<close>\<close>

text \<open>
  The part of \<open>pushDiagram\<close> after \<open>await syncService.push(diagram)\<close>: the rest of the
  \<open>try\<close> block, which may throw when it reads \<open>success\<close> from \<open>null\<close>, then \<open>catch\<close>,
  then \<open>finally\<close>.
\<close>

definition after_push ::
  "sync_options \<Rightarrow> diagram \<Rightarrow> string \<Rightarrow> js_error + push_response option \<Rightarrow>
   sync_world \<Rightarrow> sync_world" where
  "after_push opts d diagramJSON r st =
     (case (case r of
              Inl e \<Rightarrow> (Some e, st)
            | Inr None \<Rightarrow> (Some (null_read ''success''), st)
            | Inr (Some response) \<Rightarrow>
                if pr_success response
                then (None, call_onSyncSuccess opts (dg_id d)
                              (st\<lparr>lastSyncedDiagramRef := Some diagramJSON\<rparr>))
                else (None, st))
      of (thrown, st1) \<Rightarrow>
        (case thrown of
           None \<Rightarrow> st1
         | Some e \<Rightarrow> call_onSyncError opts e st1)\<lparr>isSyncingRef := False\<rparr>)"

text \<open>
  \<open>pushDiagram\<close> run from call to completion.  \<open>stringify\<close> stands for
  \<open>JSON.stringify\<close> on a diagram.
\<close>

definition pushDiagram ::
  "(diagram \<Rightarrow> string) \<Rightarrow> sync_config option \<Rightarrow> sync_options \<Rightarrow> push_response fetch \<Rightarrow>
   diagram \<Rightarrow> sync_world \<Rightarrow> sync_world" where
  "pushDiagram stringify syncService opts fetch d st =
     (case syncService of
        None \<Rightarrow> st
      | Some config \<Rightarrow>
          if sync_off syncService opts then st
          else if isSyncingRef st then st
          else
            (let st1 = st\<lparr>isSyncingRef := True\<rparr>;
                 diagramJSON = stringify d
             in if lastSyncedDiagramRef st1 = Some diagramJSON
                then st1\<lparr>isSyncingRef := False\<rparr>
                else (case service_push config fetch d (network st1) of
                        (r, net) \<Rightarrow> after_push opts d diagramJSON r (st1\<lparr>network := net\<rparr>))))"

text \<open>
  The same code cut at its \<open>await\<close>.  \<open>push_begin\<close> runs up to the point where the
  request has been issued and \<open>pushDiagram\<close> is suspended; \<open>push_settle\<close> resumes it
  with what \<open>fetch\<close> produced.  Other calls may run between the two.
\<close>

record pending_push =
  pp_diagram :: diagram
  pp_diagramJSON :: string
  pp_request :: request

definition push_begin ::
  "(diagram \<Rightarrow> string) \<Rightarrow> sync_config option \<Rightarrow> sync_options \<Rightarrow> diagram \<Rightarrow> sync_world \<Rightarrow>
   pending_push option \<times> sync_world" where
  "push_begin stringify syncService opts d st =
     (case syncService of
        None \<Rightarrow> (None, st)
      | Some config \<Rightarrow>
          if sync_off syncService opts then (None, st)
          else if isSyncingRef st then (None, st)
          else
            (let st1 = st\<lparr>isSyncingRef := True\<rparr>;
                 diagramJSON = stringify d
             in if lastSyncedDiagramRef st1 = Some diagramJSON
                then (None, st1\<lparr>isSyncingRef := False\<rparr>)
                else (Some \<lparr> pp_diagram = d, pp_diagramJSON = diagramJSON,
                             pp_request = push_request config d \<rparr>,
                      st1\<lparr>network := network st1 @ [push_request config d]\<rparr>)))"

definition push_settle ::
  "sync_options \<Rightarrow> pending_push \<Rightarrow> js_error + push_response response \<Rightarrow>
   sync_world \<Rightarrow> sync_world" where
  "push_settle opts p outcome st =
     after_push opts (pp_diagram p) (pp_diagramJSON p) (push_result outcome) st"

subsection \<open>\<open>pullDiagram\<close> and \<open>listDiagrams\<close>\<close>

definition pullDiagram ::
  "(diagram \<Rightarrow> string) \<Rightarrow> sync_config option \<Rightarrow> sync_options \<Rightarrow> clock \<Rightarrow>
   backend_diagram fetch \<Rightarrow> string \<Rightarrow> sync_world \<Rightarrow> diagram option \<times> sync_world" where
  "pullDiagram stringify syncService opts clk fetch diagramId st =
     (case syncService of
        None \<Rightarrow> (None, st)
      | Some config \<Rightarrow>
          if sync_off syncService opts then (None, st)
          else (case service_pull config clk fetch diagramId (network st) of
                  (r, net) \<Rightarrow>
                    (case r of
                       Inl e \<Rightarrow> (None, call_onSyncError opts e (st\<lparr>network := net\<rparr>))
                     | Inr None \<Rightarrow> (None, st\<lparr>network := net\<rparr>)
                     | Inr (Some d) \<Rightarrow>
                         (Some d, st\<lparr>network := net,
                                     lastSyncedDiagramRef := Some (stringify d)\<rparr>))))"

definition listRemoteDiagrams ::
  "sync_config option \<Rightarrow> sync_options \<Rightarrow> backend_list_item list fetch \<Rightarrow> sync_world \<Rightarrow>
   diagram_list_item list \<times> sync_world" where
  "listRemoteDiagrams syncService opts fetch st =
     (case syncService of
        None \<Rightarrow> ([], st)
      | Some config \<Rightarrow>
          if sync_off syncService opts then ([], st)
          else (case service_listDiagrams config fetch (network st) of
                  (r, net) \<Rightarrow>
                    (case r of
                       Inl e \<Rightarrow> ([], call_onSyncError opts e (st\<lparr>network := net\<rparr>))
                     | Inr diagrams \<Rightarrow> (diagrams, st\<lparr>network := net\<rparr>))))"

section \<open>The startup reconciler: \<open>loadDefaultDiagram\<close>\<close>

text \<open>
  Modelled from the spec: the Local Catalog (\<open>useStorage\<close>, and \<open>loadDiagram\<close> of
  \<open>useChartDB\<close>) is outside the sources at hand.  Following sections 4.4 and 6 of the
  specification it is a collection of diagrams keyed by id, in the order in which
  they were added: \<open>listDiagrams\<close> returns it, \<open>addDiagram\<close> adds an entry, and
  \<open>loadDiagram\<close> finds the entry with a given id.
\<close>

type_synonym catalog = "diagram list"

definition storage_listDiagrams :: "catalog \<Rightarrow> diagram list" where
  "storage_listDiagrams store = store"

definition addDiagram :: "diagram \<Rightarrow> catalog \<Rightarrow> catalog" where
  "addDiagram d store = store @ [d]"

definition loadDiagram :: "string \<Rightarrow> catalog \<Rightarrow> diagram option" where
  "loadDiagram diagramId store = find (\<lambda>d. dg_id d = diagramId) store"

text \<open>The calls made to the user interface collaborators, in order.\<close>

datatype ui_event =
    SetInitialDiagram "diagram option"
  | ShowLoader
  | HideLoader
  | ResetRedoStack
  | ResetUndoStack
  | OpenOpenDiagramDialog bool
  | OpenCreateDiagramDialog
  | Navigate string

record loader_world =
  store :: catalog
  ui :: "ui_event list"
  sync :: sync_world

definition emit :: "ui_event list \<Rightarrow> loader_world \<Rightarrow> loader_world" where
  "emit es w = w\<lparr>ui := ui w @ es\<rparr>"

text \<open>A string used as a condition: \<open>undefined\<close> and the empty string are falsy.\<close>

definition truthy :: "string option \<Rightarrow> bool" where
  "truthy s \<longleftrightarrow> (case s of None \<Rightarrow> False | Some v \<Rightarrow> v \<noteq> [])"

text \<open>The object literal handed to \<open>addDiagram\<close> for a remote entry.\<close>

definition from_remote :: "diagram_list_item \<Rightarrow> diagram" where
  "from_remote remote =
     \<lparr> dg_id = dli_id remote, dg_name = dli_name remote,
       dg_databaseType = dli_databaseType remote,
       dg_databaseEdition = dli_databaseEdition remote,
       dg_createdAt = dli_createdAt remote, dg_updatedAt = dli_updatedAt remote,
       dg_tables = None, dg_relationships = None, dg_dependencies = None,
       dg_areas = None, dg_customTypes = None, dg_notes = None \<rparr>"

text \<open>The \<open>for\<close> loop over the remote entries; \<open>localIds\<close> is computed once, before it.\<close>

fun add_missing :: "string set \<Rightarrow> diagram_list_item list \<Rightarrow> catalog \<Rightarrow> catalog" where
  "add_missing localIds [] st = st"
| "add_missing localIds (remote # rest) st =
     add_missing localIds rest
       (if dli_id remote \<notin> localIds then addDiagram (from_remote remote) st else st)"

text \<open>
  The \<open>try\<close> block: the hook \<open>useSync()\<close> is used with its default options, so the
  remote list comes from \<open>listRemoteDiagrams\<close>, which does not throw.
\<close>

definition reconcile ::
  "sync_config option \<Rightarrow> backend_list_item list fetch \<Rightarrow> loader_world \<Rightarrow> loader_world" where
  "reconcile syncService fetch w =
     (case listRemoteDiagrams syncService default_options fetch (sync w) of
        (remoteDiagrams, sy) \<Rightarrow>
          if remoteDiagrams \<noteq> []
          then w\<lparr>sync := sy,
                 store := add_missing (set (map dg_id (storage_listDiagrams (store w))))
                            remoteDiagrams (store w)\<rparr>
          else w\<lparr>sync := sy\<rparr>)"

definition prompt :: "loader_world \<Rightarrow> loader_world" where
  "prompt w =
     (if storage_listDiagrams (store w) \<noteq> []
      then emit [OpenOpenDiagramDialog False] w
      else emit [OpenCreateDiagramDialog] w)"

definition loadDefaultDiagram ::
  "sync_config option \<Rightarrow> backend_list_item list fetch \<Rightarrow> string option \<Rightarrow> string option \<Rightarrow>
   loader_world \<Rightarrow> loader_world" where
  "loadDefaultDiagram syncService fetch diagramId defaultDiagramId w =
     (if truthy diagramId then
        (let w1 = emit [SetInitialDiagram None, ShowLoader, ResetRedoStack, ResetUndoStack] w
         in case loadDiagram (the diagramId) (store w1) of
              None \<Rightarrow> emit [OpenOpenDiagramDialog False, HideLoader] w1
            | Some d \<Rightarrow> emit [SetInitialDiagram (Some d), HideLoader] w1)
      else
        (case (if truthy defaultDiagramId
               then loadDiagram (the defaultDiagramId) (store w) else None) of
           Some d \<Rightarrow> emit [Navigate (''/diagrams/'' @ the defaultDiagramId)] w
         | None \<Rightarrow> prompt (reconcile syncService fetch w)))"

section \<open>Notions used to state the properties\<close>

subsection \<open>Round trip of the codec\<close>

text \<open>
  What a round trip through the codec keeps of each entity.  Of a field everything is
  kept except possibly \<open>createdAt\<close>, which is kept when it is not 0.  Of an index, a
  relationship and a dependency everything is kept except possibly \<open>createdAt\<close>.  Of a
  table everything is kept up to its \<open>createdAt\<close> and up to what is kept of its fields
  and indexes; of a diagram everything is kept up to what is kept of its tables,
  relationships and dependencies.
\<close>

definition field_kept :: "db_field \<Rightarrow> db_field \<Rightarrow> bool" where
  "field_kept f f' \<longleftrightarrow>
     f' = f\<lparr>fld_createdAt := fld_createdAt f'\<rparr> \<and>
     (fld_createdAt f \<noteq> 0 \<longrightarrow> fld_createdAt f' = fld_createdAt f)"

definition index_kept :: "db_index \<Rightarrow> db_index \<Rightarrow> bool" where
  "index_kept i i' \<longleftrightarrow> i' = i\<lparr>idx_createdAt := idx_createdAt i'\<rparr>"

definition table_kept :: "db_table \<Rightarrow> db_table \<Rightarrow> bool" where
  "table_kept t t' \<longleftrightarrow>
     t' = t\<lparr>tbl_createdAt := tbl_createdAt t', tbl_fields := tbl_fields t',
            tbl_indexes := tbl_indexes t'\<rparr> \<and>
     list_all2 field_kept (tbl_fields t) (tbl_fields t') \<and>
     list_all2 index_kept (tbl_indexes t) (tbl_indexes t')"

definition relationship_kept :: "db_relationship \<Rightarrow> db_relationship \<Rightarrow> bool" where
  "relationship_kept r r' \<longleftrightarrow> r' = r\<lparr>rel_createdAt := rel_createdAt r'\<rparr>"

definition dependency_kept :: "db_dependency \<Rightarrow> db_dependency \<Rightarrow> bool" where
  "dependency_kept d d' \<longleftrightarrow> d' = d\<lparr>dep_createdAt := dep_createdAt d'\<rparr>"

definition diagram_kept :: "diagram \<Rightarrow> diagram \<Rightarrow> bool" where
  "diagram_kept d d' \<longleftrightarrow>
     d' = d\<lparr>dg_tables := dg_tables d', dg_relationships := dg_relationships d',
            dg_dependencies := dg_dependencies d'\<rparr> \<and>
     rel_option (list_all2 table_kept) (dg_tables d) (dg_tables d') \<and>
     rel_option (list_all2 relationship_kept) (dg_relationships d) (dg_relationships d') \<and>
     rel_option (list_all2 dependency_kept) (dg_dependencies d) (dg_dependencies d')"

definition collections_present :: "diagram \<Rightarrow> bool" where
  "collections_present d \<longleftrightarrow>
     dg_tables d \<noteq> None \<and> dg_relationships d \<noteq> None \<and> dg_dependencies d \<noteq> None \<and>
     dg_areas d \<noteq> None \<and> dg_customTypes d \<noteq> None \<and> dg_notes d \<noteq> None"

text \<open>The \<open>createdAt\<close> of the indexes, table by table: inside, and on the wire.\<close>

definition index_stamps :: "diagram \<Rightarrow> int list list" where
  "index_stamps d =
     (case dg_tables d of
        None \<Rightarrow> []
      | Some ts \<Rightarrow> map (\<lambda>t. map idx_createdAt (tbl_indexes t)) ts)"

definition wire_index_stamps :: "backend_diagram \<Rightarrow> int option list list" where
  "wire_index_stamps w =
     (case w_tables w of
        None \<Rightarrow> []
      | Some ts \<Rightarrow>
          map (\<lambda>t. case wt_indexes t of None \<Rightarrow> [] | Some ixs \<Rightarrow> map wi_createdAt ixs) ts)"

subsection \<open>Normalisation of a bare type name\<close>

text \<open>
  The wording of the specification, written with tables of characters rather than
  with code points.  The whitespace characters are tab, line feed, vertical tab, form
  feed, carriage return, space and no-break space.  Every capital letter has a small
  letter: the capital and small letters of the alphabet, and those of the Latin-1
  Supplement (capital A with grave to capital thorn, without the multiplication
  sign), in the same order.  A text in lower case has every capital letter replaced
  by its small letter.
\<close>

definition whitespace_characters :: "char list" where
  "whitespace_characters =
     [CHR 0x09, CHR 0x0A, CHR 0x0B, CHR 0x0C, CHR 0x0D, CHR 0x20, CHR 0xA0]"

definition is_whitespace :: "char \<Rightarrow> bool" where
  "is_whitespace c \<longleftrightarrow> c \<in> set whitespace_characters"

definition capital_letters :: "char list" where
  "capital_letters =
     ''ABCDEFGHIJKLMNOPQRSTUVWXYZ'' @
     [CHR 0xC0, CHR 0xC1, CHR 0xC2, CHR 0xC3, CHR 0xC4, CHR 0xC5, CHR 0xC6, CHR 0xC7,
      CHR 0xC8, CHR 0xC9, CHR 0xCA, CHR 0xCB, CHR 0xCC, CHR 0xCD, CHR 0xCE, CHR 0xCF,
      CHR 0xD0, CHR 0xD1, CHR 0xD2, CHR 0xD3, CHR 0xD4, CHR 0xD5, CHR 0xD6,
      CHR 0xD8, CHR 0xD9, CHR 0xDA, CHR 0xDB, CHR 0xDC, CHR 0xDD, CHR 0xDE]"

definition small_letters :: "char list" where
  "small_letters =
     ''abcdefghijklmnopqrstuvwxyz'' @
     [CHR 0xE0, CHR 0xE1, CHR 0xE2, CHR 0xE3, CHR 0xE4, CHR 0xE5, CHR 0xE6, CHR 0xE7,
      CHR 0xE8, CHR 0xE9, CHR 0xEA, CHR 0xEB, CHR 0xEC, CHR 0xED, CHR 0xEE, CHR 0xEF,
      CHR 0xF0, CHR 0xF1, CHR 0xF2, CHR 0xF3, CHR 0xF4, CHR 0xF5, CHR 0xF6,
      CHR 0xF8, CHR 0xF9, CHR 0xFA, CHR 0xFB, CHR 0xFC, CHR 0xFD, CHR 0xFE]"

definition small_letter_of :: "char \<Rightarrow> char" where
  "small_letter_of c =
     (case map_of (zip capital_letters small_letters) c of
        None \<Rightarrow> c
      | Some l \<Rightarrow> l)"

definition in_lower_case :: "string \<Rightarrow> string" where
  "in_lower_case s = map small_letter_of s"

text \<open>
  The maximal runs of a text with respect to a class of characters, each with its
  kind (\<open>True\<close> for a run of characters of the class), and the text in which every run
  of whitespace has become one underscore.
\<close>

fun runs :: "(char \<Rightarrow> bool) \<Rightarrow> string \<Rightarrow> (bool \<times> string) list" where
  "runs P [] = []"
| "runs P (c # cs) =
     (case runs P cs of
        [] \<Rightarrow> [(P c, [c])]
      | (b, r) # rs \<Rightarrow>
          if b = P c then (b, c # r) # rs else (P c, [c]) # (b, r) # rs)"

definition underscore_run :: "bool \<times> string \<Rightarrow> string" where
  "underscore_run br = (if fst br then ''_'' else snd br)"

definition normalized_type_id :: "string \<Rightarrow> string" where
  "normalized_type_id s =
     concat (map underscore_run (runs is_whitespace (in_lower_case s)))"

definition uniform_run :: "(char \<Rightarrow> bool) \<Rightarrow> bool \<times> string \<Rightarrow> bool" where
  "uniform_run P br \<longleftrightarrow> snd br \<noteq> [] \<and> list_all (\<lambda>c. P c = fst br) (snd br)"

fun alternating :: "(bool \<times> string) list \<Rightarrow> bool" where
  "alternating (x # y # zs) \<longleftrightarrow> fst x \<noteq> fst y \<and> alternating (y # zs)"
| "alternating _ \<longleftrightarrow> True"

subsection \<open>The failure reported for a push\<close>

text \<open>
  The message as the specification words it: taken from the error payload, or, when
  the body does not parse, made of the status and the status text.
\<close>

definition message_as_specified :: "nat \<Rightarrow> string \<Rightarrow> string option json \<Rightarrow> string \<Rightarrow> bool" where
  "message_as_specified st txt body m \<longleftrightarrow>
     (case body of
        Unparseable \<Rightarrow> m = ''HTTP '' @ decimal st @ '': '' @ txt
      | JsonNull \<Rightarrow> False
      | Json e \<Rightarrow> e = Some m)"

text \<open>
  The failure of a push, case by case: what \<open>fetch\<close> threw; the \<open>error\<close> text of the
  payload when there is one and it is not empty; a fixed text when the payload parses
  without such a text; the status line when the body does not parse; the failed
  property read when the body is \<open>null\<close>.  A success status is no failure of the
  transport.
\<close>

fun push_failure :: "js_error + push_response response \<Rightarrow> js_error option" where
  "push_failure (Inl e) = Some e"
| "push_failure (Inr (Failure st txt Unparseable)) =
     Some (Error (''HTTP '' @ decimal st @ '': '' @ txt))"
| "push_failure (Inr (Failure st txt JsonNull)) = Some (null_read ''error'')"
| "push_failure (Inr (Failure st txt (Json None))) = Some (Error ''Failed to push diagram'')"
| "push_failure (Inr (Failure st txt (Json (Some m)))) =
     Some (Error (if m = [] then ''Failed to push diagram'' else m))"
| "push_failure (Inr (Success st txt body)) = None"

section \<open>Example values\<close>

definition field_ex :: db_field where
  "field_ex =
     \<lparr> fld_id = ''f1'', fld_name = ''id'',
       fld_type = \<lparr> dt_id = ''uuid'', dt_name = ''UUID'' \<rparr>,
       fld_primaryKey = True, fld_unique = True, fld_nullable = False,
       fld_createdAt = 5, fld_check = None, fld_default = None,
       fld_collation = None, fld_comments = Some ''key'' \<rparr>"

definition index_ex :: db_index where
  "index_ex =
     \<lparr> idx_id = ''i1'', idx_name = ''users_pk'', idx_unique = True,
       idx_fieldIds = [''f1''], idx_createdAt = 5 \<rparr>"

definition table_ex :: db_table where
  "table_ex =
     \<lparr> tbl_id = ''t1'', tbl_name = ''users'', tbl_schema = Some ''public'',
       tbl_x = 10, tbl_y = 20, tbl_color = ''#ff0000'', tbl_isView = False,
       tbl_createdAt = 5, tbl_fields = [field_ex], tbl_indexes = [index_ex],
       tbl_comments = None \<rparr>"

definition diagram_ex :: diagram where
  "diagram_ex =
     \<lparr> dg_id = ''d1'', dg_name = ''shop'', dg_databaseType = ''postgresql'',
       dg_databaseEdition = None, dg_createdAt = Date 1000, dg_updatedAt = Date 2000,
       dg_tables = Some [table_ex], dg_relationships = Some [],
       dg_dependencies = Some [], dg_areas = Some [], dg_customTypes = Some [],
       dg_notes = Some [] \<rparr>"

definition diagram_ex2 :: diagram where
  "diagram_ex2 = diagram_ex\<lparr>dg_name := ''shop v2''\<rparr>"

definition clock_ex :: clock where
  "clock_ex n = 9 + int n"

definition wire_field_ex :: backend_field where
  "wire_field_ex =
     \<lparr> wf_id = ''f2'', wf_name = ''email'', wf_type = Inl ''VARCHAR'',
       wf_primaryKey = False, wf_unique = True, wf_nullable = False,
       wf_createdAt = None, wf_check = None, wf_default = None,
       wf_collation = None, wf_comments = None \<rparr>"

definition config_ex :: sync_config where
  "config_ex = \<lparr> cfg_apiUrl = ''http://localhost:8080'', cfg_enabled = True \<rparr>"

definition config_off :: sync_config where
  "config_off = \<lparr> cfg_apiUrl = [], cfg_enabled = False \<rparr>"

definition options_ex :: sync_options where
  "options_ex = \<lparr> opt_enabled = True, opt_onSyncSuccess = True, opt_onSyncError = True \<rparr>"

text \<open>A stand-in for \<open>JSON.stringify\<close> in the examples.\<close>

definition stringify_ex :: "diagram \<Rightarrow> string" where
  "stringify_ex d = dg_id d @ ''/'' @ dg_name d"

definition world_ex :: sync_world where
  "world_ex =
     \<lparr> isSyncingRef = False, lastSyncedDiagramRef = None, network = [], callbacks = [] \<rparr>"

definition remote_a :: backend_list_item where
  "remote_a =
     \<lparr> li_id = ''d1'', li_name = ''shop (server)'', li_database_type = ''postgresql'',
       li_database_edition = None, li_created_at = ISO 1000, li_updated_at = ISO 3000 \<rparr>"

definition remote_b :: backend_list_item where
  "remote_b =
     \<lparr> li_id = ''d2'', li_name = ''blog'', li_database_type = ''mysql'',
       li_database_edition = Some ''mysql_8'', li_created_at = ISO 4000,
       li_updated_at = ISO 5000 \<rparr>"

definition loader_ex :: loader_world where
  "loader_ex = \<lparr> store = [diagram_ex], ui = [], sync = world_ex \<rparr>"

text \<open>A network that gives every request the same outcome.\<close>

definition fetch_of :: "js_error + 'a response \<Rightarrow> 'a fetch" where
  "fetch_of outcome request = outcome"

definition accepted :: push_response where
  "accepted = \<lparr> pr_success = True, pr_diagram_id = ''d1'' \<rparr>"

definition refused :: push_response where
  "refused = \<lparr> pr_success = False, pr_diagram_id = ''d1'' \<rparr>"

definition world_busy :: sync_world where
  "world_busy = world_ex\<lparr>isSyncingRef := True\<rparr>"

definition world_synced :: sync_world where
  "world_synced = world_ex\<lparr>lastSyncedDiagramRef := Some (stringify_ex diagram_ex)\<rparr>"

definition pending_ex :: pending_push where
  "pending_ex =
     \<lparr> pp_diagram = diagram_ex, pp_diagramJSON = stringify_ex diagram_ex,
       pp_request = push_request config_ex diagram_ex \<rparr>"

section \<open>Field type normalisation\<close>

text \<open>
  The code points used by the decoder are the characters of the tables, for every
  character: by evaluation on each of the 256 characters.
\<close>

lemma is_space_table: "\<forall>c. is_space c = is_whitespace c"
  by code_simp

lemma lower_char_table: "\<forall>c. lower_char c = small_letter_of c"
  by code_simp

lemma is_space_is_whitespace: "is_space = is_whitespace"
  using is_space_table by (simp add: fun_eq_iff)

lemma toLowerCase_in_lower_case: "toLowerCase s = in_lower_case s"
  using lower_char_table by (simp add: toLowerCase_def in_lower_case_def)

text \<open>
  \<open>runs\<close> cuts a text into its maximal runs: they make up the text, each is not
  empty and of one kind, and two neighbours are of different kinds.
\<close>

lemma runs_concat: "concat (map snd (runs P s)) = s"
  by (induction s) (auto split: list.splits)

lemma runs_uniform: "list_all (uniform_run P) (runs P s)"
  by (induction s) (auto simp: uniform_run_def split: list.splits)

lemma alternating_head: "alternating ((b, r) # xs) \<Longrightarrow> alternating ((b, r') # xs)"
  by (cases xs) auto

lemma runs_alternating: "alternating (runs P s)"
  by (induction s) (auto split: list.splits intro: alternating_head)

lemma runs_Nil: "runs P cs = [] \<longleftrightarrow> cs = []"
  by (cases cs) (auto split: list.splits)

lemma runs_head:
  "runs P cs = (b, r) # rs \<Longrightarrow> \<exists>c cs'. cs = c # cs' \<and> b = P c \<and> r \<noteq> []"
  by (cases cs) (auto split: list.splits if_splits)

text \<open>The scan of the regular expression writes one underscore for each run of whitespace.\<close>

lemma replace_ws_runs: "replace_ws s = concat (map underscore_run (runs is_space s))"
proof (induction s)
  case Nil
  then show ?case by simp
next
  case (Cons c cs)
  show ?case
  proof (cases "runs is_space cs")
    case Nil
    then have "cs = []" by (simp add: runs_Nil)
    then show ?thesis by (simp add: underscore_run_def)
  next
    case (Cons br rs)
    obtain b r where br: "br = (b, r)" by (cases br)
    from runs_head[of is_space cs b r rs] Cons br obtain c' cs' where
      cs: "cs = c' # cs'" and b: "b = is_space c'" and r: "r \<noteq> []" by auto
    show ?thesis
      using Cons.IH Cons br b r cs
      by (auto simp: underscore_run_def)
  qed
qed

lemma replace_ws_no_space: "list_all (\<lambda>c. \<not> is_space c) (replace_ws s)"
proof (induction s rule: replace_ws.induct)
  case 1
  show ?case by simp
next
  case (2 c cs)
  have "\<not> is_space (CHR ''_'')" by (simp add: is_space_def)
  with 2 show ?case by simp
qed

lemma fieldType_bare:
  "fieldType (Inl s) = \<lparr> dt_id = normalized_type_id s, dt_name = s \<rparr>"
  by (simp add: fieldType_def normalized_type_id_def replace_ws_runs
      is_space_is_whitespace toLowerCase_in_lower_case)

lemma normalized_type_id_VARCHAR: "normalized_type_id ''VARCHAR'' = ''varchar''"
  by code_simp

text \<open>
  Claim C9.  Decoding a wire field whose type is a bare string \<open>s\<close> gives the pair whose
  id is \<open>s\<close> in lower case with every run of whitespace replaced by one underscore and
  whose name is \<open>s\<close>; a wire field whose type is already a pair keeps that pair.  So
  \<open>VARCHAR\<close> becomes the pair of \<open>varchar\<close> and \<open>VARCHAR\<close>, and the pair of \<open>uuid\<close> and
  \<open>UUID\<close> is kept.
\<close>

theorem field_type_normalization:
  "fld_type (fst (deserialize_field clk (f\<lparr>wf_type := Inl s\<rparr>) n)) =
     \<lparr> dt_id = normalized_type_id s, dt_name = s \<rparr> \<and>
   fld_type (fst (deserialize_field clk (f\<lparr>wf_type := Inr p\<rparr>) n)) = p \<and>
   fld_type (fst (deserialize_field clk (f\<lparr>wf_type := Inl ''VARCHAR''\<rparr>) n)) =
     \<lparr> dt_id = ''varchar'', dt_name = ''VARCHAR'' \<rparr> \<and>
   fld_type (fst (deserialize_field clk
       (f\<lparr>wf_type := Inr \<lparr> dt_id = ''uuid'', dt_name = ''UUID'' \<rparr>\<rparr>) n)) =
     \<lparr> dt_id = ''uuid'', dt_name = ''UUID'' \<rparr>"
proof -
  have t: "fld_type (fst (deserialize_field clk g n)) = fieldType (wf_type g)" for g
    by (simp add: deserialize_field_def split: prod.splits)
  have p: "fieldType (Inr q) = q" for q
    by (simp add: fieldType_def)
  show ?thesis
    by (simp add: t p fieldType_bare normalized_type_id_VARCHAR)
qed

text \<open>
  The decoder on examples: the first example of the specification on a whole wire
  field, a name with a run of two spaces, a name with a tab after a space, a name
  with a no-break space and a capital E with acute, and a structured pair.
\<close>

lemma field_type_examples:
  "fld_type (fst (deserialize_field clock_ex wire_field_ex 0)) =
     \<lparr> dt_id = ''varchar'', dt_name = ''VARCHAR'' \<rparr>"
  "fieldType (Inl ''Double  Precision'') =
     \<lparr> dt_id = ''double_precision'', dt_name = ''Double  Precision'' \<rparr>"
  "dt_id (fieldType (Inl [CHR ''T'', CHR 0x20, CHR 0x09, CHR ''Z''])) = ''t_z''"
  "dt_id (fieldType (Inl [CHR 0xC9, CHR 0xA0, CHR ''X''])) = [CHR 0xE9, CHR ''_'', CHR ''x'']"
  "fieldType (Inr \<lparr> dt_id = ''uuid'', dt_name = ''UUID'' \<rparr>) =
     \<lparr> dt_id = ''uuid'', dt_name = ''UUID'' \<rparr>"
  by code_simp+

section \<open>Round trip of the codec\<close>

lemma map_timed_rel:
  assumes "\<And>x n. R x (fst (f (e x) n))"
  shows "list_all2 R xs (fst (map_timed f (map e xs) n))"
proof (induction xs arbitrary: n)
  case Nil
  show ?case by simp
next
  case (Cons x xs)
  obtain y n1 where y: "f (e x) n = (y, n1)" by (cases "f (e x) n")
  obtain ys n2 where ys: "map_timed f (map e xs) n1 = (ys, n2)"
    by (cases "map_timed f (map e xs) n1")
  have "R x y" using assms[of x n] y by simp
  moreover have "list_all2 R xs ys" using Cons.IH[of n1] ys by simp
  ultimately show ?case using y ys by simp
qed

lemma opt_map_timed_rel:
  assumes "\<And>x n. R x (fst (f (e x) n))"
  shows "rel_option (list_all2 R) xs (fst (opt_map_timed f (map_option (map e) xs) n))"
proof (cases xs)
  case None
  then show ?thesis by (simp add: opt_map_timed_def)
next
  case (Some l)
  obtain ys n1 where ys: "map_timed f (map e l) n = (ys, n1)"
    by (cases "map_timed f (map e l) n")
  have "list_all2 R l ys" using map_timed_rel[of R f e l n, OF assms] ys by simp
  then show ?thesis using Some ys by (simp add: opt_map_timed_def)
qed

lemma field_roundtrip: "field_kept f (fst (deserialize_field clk (field_on_wire f) n))"
  by (simp add: field_kept_def deserialize_field_def field_on_wire_def or_now_def fieldType_def)

lemma index_roundtrip: "index_kept i (fst (deserialize_index clk (index_on_wire i) n))"
  by (simp add: index_kept_def deserialize_index_def index_on_wire_def)

lemma relationship_roundtrip:
  "relationship_kept r (fst (deserialize_relationship clk (serialize_relationship k r) n))"
  by (simp add: relationship_kept_def deserialize_relationship_def serialize_relationship_def
      or_now_def)

lemma dependency_roundtrip:
  "dependency_kept d (fst (deserialize_dependency clk (serialize_dependency k d) n))"
  by (simp add: dependency_kept_def deserialize_dependency_def serialize_dependency_def
      or_now_def)

lemma area_roundtrip: "deserialize_area (serialize_area k a) = a"
  by (simp add: deserialize_area_def serialize_area_def)

lemma custom_type_roundtrip: "deserialize_custom_type (serialize_custom_type k ct) = ct"
  by (simp add: deserialize_custom_type_def serialize_custom_type_def)

lemma note_roundtrip: "deserialize_note (serialize_note k n) = n"
  by (simp add: deserialize_note_def serialize_note_def)

lemma date_roundtrip: "new_Date (toISOString t) = t"
  by (cases t) simp

lemma table_roundtrip:
  "table_kept t (fst (deserialize_table clk (serialize_table k t) n))"
proof -
  obtain c n1 where c: "or_now clk None n = (c, n1)" by (cases "or_now clk None n")
  obtain fs n2 where fs:
    "map_timed (deserialize_field clk) (map field_on_wire (tbl_fields t)) n1 = (fs, n2)"
    by (cases "map_timed (deserialize_field clk) (map field_on_wire (tbl_fields t)) n1")
  obtain ixs n3 where ixs:
    "map_timed (deserialize_index clk) (map index_on_wire (tbl_indexes t)) n2 = (ixs, n3)"
    by (cases "map_timed (deserialize_index clk) (map index_on_wire (tbl_indexes t)) n2")
  have "list_all2 field_kept (tbl_fields t) fs"
    using map_timed_rel[of field_kept "deserialize_field clk" field_on_wire "tbl_fields t" n1]
      field_roundtrip fs by simp
  moreover have "list_all2 index_kept (tbl_indexes t) ixs"
    using map_timed_rel[of index_kept "deserialize_index clk" index_on_wire "tbl_indexes t" n2]
      index_roundtrip ixs by simp
  ultimately show ?thesis
    using c fs ixs by (simp add: table_kept_def deserialize_table_def serialize_table_def)
qed

lemma map_option_map_id:
  assumes "\<And>x. g (f x) = x"
  shows "map_option (map g) (map_option (map f) xs) = xs"
  by (cases xs) (simp_all add: assms map_idI)

text \<open>
  Claim C1, as amended.  For every diagram \<open>d\<close>, whether its collections are present
  or not, and every clock, \<open>deserializeDiagram (serializeDiagram d)\<close> is \<open>d\<close> except
  for \<open>createdAt\<close> values: those of tables, relationships and dependencies, which the
  encoder does not send; those of indexes, which the decoder stamps anew although
  the encoder sends them; a field keeps its \<open>createdAt\<close> when it is not 0.
\<close>

theorem roundtrip_up_to_createdAt:
  "diagram_kept d (deserializeDiagram clk (serializeDiagram d))"
proof -
  let ?w = "serializeDiagram d"
  obtain ts n1 where ts: "opt_map_timed (deserialize_table clk) (w_tables ?w) 0 = (ts, n1)"
    by (cases "opt_map_timed (deserialize_table clk) (w_tables ?w) 0")
  obtain rs n2 where rs:
    "opt_map_timed (deserialize_relationship clk) (w_relationships ?w) n1 = (rs, n2)"
    by (cases "opt_map_timed (deserialize_relationship clk) (w_relationships ?w) n1")
  obtain ds n3 where ds:
    "opt_map_timed (deserialize_dependency clk) (w_dependencies ?w) n2 = (ds, n3)"
    by (cases "opt_map_timed (deserialize_dependency clk) (w_dependencies ?w) n2")
  have T: "rel_option (list_all2 table_kept) (dg_tables d) ts"
    using opt_map_timed_rel[of table_kept "deserialize_table clk" "serialize_table (dg_id d)"
        "dg_tables d" 0] table_roundtrip ts
    by (simp add: serializeDiagram_def)
  have R: "rel_option (list_all2 relationship_kept) (dg_relationships d) rs"
    using opt_map_timed_rel[of relationship_kept "deserialize_relationship clk"
        "serialize_relationship (dg_id d)" "dg_relationships d" n1] relationship_roundtrip rs
    by (simp add: serializeDiagram_def)
  have D: "rel_option (list_all2 dependency_kept) (dg_dependencies d) ds"
    using opt_map_timed_rel[of dependency_kept "deserialize_dependency clk"
        "serialize_dependency (dg_id d)" "dg_dependencies d" n2] dependency_roundtrip ds
    by (simp add: serializeDiagram_def)
  have E: "deserializeDiagram clk ?w =
      d\<lparr>dg_tables := ts, dg_relationships := rs, dg_dependencies := ds\<rparr>"
    using ts rs ds
    by (simp add: deserializeDiagram_def deserialize_from_def)
       (simp add: serializeDiagram_def date_roundtrip map_option_map_id area_roundtrip
          custom_type_roundtrip note_roundtrip)
  show ?thesis
    unfolding E using T R D by (simp add: diagram_kept_def)
qed

theorem roundtrip_up_to_createdAt_witness:
  "collections_present diagram_ex \<and> fld_createdAt field_ex \<noteq> 0 \<and>
   diagram_kept diagram_ex (deserializeDiagram clock_ex (serializeDiagram diagram_ex))"
  using roundtrip_up_to_createdAt[of diagram_ex clock_ex]
  by (simp add: collections_present_def diagram_ex_def field_ex_def)

text \<open>
  The round trip of the example diagram, with the clock reading 9, 10, ...: the table
  is stamped 9 and the index 10; the field keeps its 5.
\<close>

lemma roundtrip_example:
  "deserializeDiagram clock_ex (serializeDiagram diagram_ex) =
     diagram_ex\<lparr>dg_tables :=
       Some [table_ex\<lparr>tbl_createdAt := 9, tbl_indexes := [index_ex\<lparr>idx_createdAt := 10\<rparr>]\<rparr>]\<rparr>"
  by code_simp

text \<open>
  Claim C1, as stated, fails on the example diagram, whose collections are all
  present: the \<open>createdAt\<close> of its index is 5, it is on the wire as 5, and it comes back
  as 10.
\<close>

theorem roundtrip_index_stamp_counterexample:
  "collections_present diagram_ex \<and>
   wire_index_stamps (serializeDiagram diagram_ex) = [[Some 5]] \<and>
   index_stamps diagram_ex = [[5]] \<and>
   index_stamps (deserializeDiagram clock_ex (serializeDiagram diagram_ex)) = [[10]]"
  by code_simp

section \<open>The immediate push\<close>

lemma push_failure_result:
  "push_failure outcome = Some e \<Longrightarrow> push_result outcome = Inl e"
  by (induction outcome rule: push_failure.induct)
     (auto simp: push_result_def not_ok_def json_or_status_line_def error_of_def)

text \<open>
  Where the specification words the message, for a body that does not parse or
  carries an \<open>error\<close> text that is not empty, the client builds that message.
\<close>

lemma not_ok_as_specified:
  "message_as_specified st stext body m \<Longrightarrow> m \<noteq> [] \<Longrightarrow>
   not_ok fallback st stext body = Error m"
  by (cases body)
     (auto simp: message_as_specified_def not_ok_def json_or_status_line_def error_of_def)

text \<open>
  A push that is attempted: the service is on, nothing is in flight and the content
  is new.
\<close>

lemma pushDiagram_attempt:
  assumes "\<not> sync_off (Some config) opts" "\<not> isSyncingRef st"
    "lastSyncedDiagramRef st \<noteq> Some (stringify d)"
  shows "pushDiagram stringify (Some config) opts fetch d st =
     after_push opts d (stringify d) (push_result (fetch (push_request config d)))
       (st\<lparr>isSyncingRef := True, network := network st @ [push_request config d]\<rparr>)"
proof -
  have "isEnabled config" using assms(1) by (simp add: sync_off_def)
  then show ?thesis
    using assms by (simp add: pushDiagram_def service_push_def Let_def)
qed

text \<open>
  Claim C2, as amended.  When \<open>pushDiagram\<close> attempts a push and the push fails, because
  \<open>fetch\<close> throws or the response status is not a success, the error callback, if one
  was supplied, is called once with the failure, and nothing else changes but the
  request that was issued: the success callback is not called.  The failure is what
  \<open>fetch\<close> threw, or an \<open>Error\<close> whose message is the \<open>error\<close> text of the body when the
  body parses and that text is not empty, the text \<open>Failed to push diagram\<close> when the
  body parses to an object without such a text, and \<open>HTTP status: statusText\<close> when the
  body does not parse; a body that is \<open>null\<close> makes the read of \<open>error\<close> fail, and that
  failure is reported.
\<close>

theorem push_failure_reported:
  assumes "\<not> sync_off (Some config) opts" "\<not> isSyncingRef st"
    "lastSyncedDiagramRef st \<noteq> Some (stringify d)"
    "push_failure (fetch (push_request config d)) = Some e"
  shows "pushDiagram stringify (Some config) opts fetch d st =
     st\<lparr>network := network st @ [push_request config d],
        callbacks := callbacks st @ (if opt_onSyncError opts then [SyncError e] else [])\<rparr>"
  using assms(2) push_failure_result[OF assms(4)]
  by (simp add: pushDiagram_attempt[where stringify = stringify and d = d and fetch = fetch,
        OF assms(1-3)] after_push_def call_onSyncError_def)

theorem push_failure_reported_witness:
  "\<not> sync_off (Some config_ex) options_ex \<and> \<not> isSyncingRef world_ex \<and>
   lastSyncedDiagramRef world_ex \<noteq> Some (stringify_ex diagram_ex) \<and>
   push_failure (fetch_of (Inr (Failure 500 ''Internal Server Error'' Unparseable))
     (push_request config_ex diagram_ex)) = Some (Error ''HTTP 500: Internal Server Error'') \<and>
   pushDiagram stringify_ex (Some config_ex) options_ex
     (fetch_of (Inr (Failure 500 ''Internal Server Error'' Unparseable))) diagram_ex world_ex =
   world_ex\<lparr>network := [push_request config_ex diagram_ex],
            callbacks := [SyncError (Error ''HTTP 500: Internal Server Error'')]\<rparr>"
proof -
  have h1: "\<not> sync_off (Some config_ex) options_ex" by code_simp
  have h2: "\<not> isSyncingRef world_ex" by code_simp
  have h3: "lastSyncedDiagramRef world_ex \<noteq> Some (stringify_ex diagram_ex)" by code_simp
  have h4: "push_failure (fetch_of (Inr (Failure 500 ''Internal Server Error'' Unparseable))
     (push_request config_ex diagram_ex)) = Some (Error ''HTTP 500: Internal Server Error'')"
    by code_simp
  show ?thesis
    using h1 h2 h3 h4 push_failure_reported[where stringify = stringify_ex and d = diagram_ex
        and fetch = "fetch_of (Inr (Failure 500 ''Internal Server Error'' Unparseable))",
        OF h1 h2 h3 h4]
    by (simp add: world_ex_def options_ex_def)
qed

text \<open>
  Claim C2, as stated, fails for a response with status 500 whose body is the JSON
  object \<open>{}\<close>: the body parses, and the message received by the error callback is
  neither taken from the body nor made of the status.
\<close>

theorem push_fallback_message_counterexample:
  "callbacks (pushDiagram stringify_ex (Some config_ex) options_ex
     (fetch_of (Inr (Failure 500 ''Internal Server Error'' (Json None)))) diagram_ex world_ex) =
     [SyncError (Error ''Failed to push diagram'')] \<and>
   \<not> message_as_specified 500 ''Internal Server Error'' (Json None) ''Failed to push diagram''"
  by code_simp

text \<open>
  Claim C10.  When a push is attempted and the response has a success status and a body
  whose \<open>success\<close> is false, \<open>pushDiagram\<close> ends with the request issued and nothing
  else changed: no callback is called, the last synced serialization is what it was,
  and the in-flight flag is clear.
\<close>

theorem push_refused_silently:
  assumes "\<not> sync_off (Some config) opts" "\<not> isSyncingRef st"
    "lastSyncedDiagramRef st \<noteq> Some (stringify d)"
    "fetch (push_request config d) = Inr (Success s stext (Json r))" "\<not> pr_success r"
  shows "pushDiagram stringify (Some config) opts fetch d st =
     st\<lparr>network := network st @ [push_request config d]\<rparr>"
  using assms(2,4,5)
  by (simp add: pushDiagram_attempt[where stringify = stringify and d = d and fetch = fetch,
        OF assms(1-3)] after_push_def push_result_def)

theorem push_refused_silently_witness:
  "\<not> sync_off (Some config_ex) options_ex \<and> \<not> isSyncingRef world_ex \<and>
   lastSyncedDiagramRef world_ex \<noteq> Some (stringify_ex diagram_ex) \<and>
   \<not> pr_success refused \<and>
   pushDiagram stringify_ex (Some config_ex) options_ex
     (fetch_of (Inr (Success 200 ''OK'' (Json refused)))) diagram_ex world_ex =
   world_ex\<lparr>network := network world_ex @ [push_request config_ex diagram_ex]\<rparr>"
proof -
  have h1: "\<not> sync_off (Some config_ex) options_ex" by code_simp
  have h2: "\<not> isSyncingRef world_ex" by code_simp
  have h3: "lastSyncedDiagramRef world_ex \<noteq> Some (stringify_ex diagram_ex)" by code_simp
  have h4: "fetch_of (Inr (Success 200 ''OK'' (Json refused))) (push_request config_ex diagram_ex) =
     Inr (Success 200 ''OK'' (Json refused))" by (simp add: fetch_of_def)
  have h5: "\<not> pr_success refused" by (simp add: refused_def)
  from h1 h2 h3 h5
    push_refused_silently[where stringify = stringify_ex and d = diagram_ex
      and fetch = "fetch_of (Inr (Success 200 ''OK'' (Json refused)))", OF h1 h2 h3 h4 h5]
  show ?thesis by blast
qed

lemma push_succeeds:
  assumes "\<not> sync_off (Some config) opts" "\<not> isSyncingRef st"
    "lastSyncedDiagramRef st \<noteq> Some (stringify d)"
    "fetch (push_request config d) = Inr (Success s stext (Json r))" "pr_success r"
  shows "pushDiagram stringify (Some config) opts fetch d st =
     st\<lparr>lastSyncedDiagramRef := Some (stringify d),
        network := network st @ [push_request config d],
        callbacks := callbacks st @
          (if opt_onSyncSuccess opts then [SyncSuccess (dg_id d)] else [])\<rparr>"
  using assms(2,4,5)
  by (simp add: pushDiagram_attempt[where stringify = stringify and d = d and fetch = fetch,
        OF assms(1-3)] after_push_def push_result_def
      call_onSyncSuccess_def)

lemma push_unchanged:
  assumes "\<not> isSyncingRef st" "lastSyncedDiagramRef st = Some (stringify d)"
  shows "pushDiagram stringify syncService opts fetch d st = st"
  using assms by (simp add: pushDiagram_def Let_def split: option.splits)

text \<open>
  Claim C3.  When a first call of \<open>pushDiagram\<close> pushes a diagram and the server
  accepts it, the call issues one request, calls the success callback (if supplied)
  once and records the serialization; a second call with the same diagram, whatever
  the network would answer, finds the same serialization and changes nothing: no
  request, no callback.
\<close>

theorem push_twice_once:
  assumes "\<not> sync_off (Some config) opts" "\<not> isSyncingRef st"
    "lastSyncedDiagramRef st \<noteq> Some (stringify d)"
    "fetch (push_request config d) = Inr (Success s stext (Json r))" "pr_success r"
  shows "network (pushDiagram stringify (Some config) opts fetch d st) =
       network st @ [push_request config d] \<and>
     callbacks (pushDiagram stringify (Some config) opts fetch d st) =
       callbacks st @ (if opt_onSyncSuccess opts then [SyncSuccess (dg_id d)] else []) \<and>
     lastSyncedDiagramRef (pushDiagram stringify (Some config) opts fetch d st) =
       Some (stringify d) \<and>
     pushDiagram stringify (Some config) opts fetch' d
       (pushDiagram stringify (Some config) opts fetch d st) =
     pushDiagram stringify (Some config) opts fetch d st"
  using assms(2)
  by (simp add: push_succeeds[where stringify = stringify and d = d and fetch = fetch, OF assms] push_unchanged)

theorem push_twice_once_witness:
  "\<not> sync_off (Some config_ex) options_ex \<and> \<not> isSyncingRef world_ex \<and>
   lastSyncedDiagramRef world_ex \<noteq> Some (stringify_ex diagram_ex) \<and>
   pr_success accepted \<and>
   pushDiagram stringify_ex (Some config_ex) options_ex
     (fetch_of (Inr (Success 200 ''OK'' (Json accepted)))) diagram_ex
     (pushDiagram stringify_ex (Some config_ex) options_ex
        (fetch_of (Inr (Success 200 ''OK'' (Json accepted)))) diagram_ex world_ex) =
   world_ex\<lparr>lastSyncedDiagramRef := Some (stringify_ex diagram_ex),
            network := [push_request config_ex diagram_ex],
            callbacks := [SyncSuccess ''d1'']\<rparr>"
proof -
  have h1: "\<not> sync_off (Some config_ex) options_ex" by code_simp
  have h2: "\<not> isSyncingRef world_ex" by code_simp
  have h3: "lastSyncedDiagramRef world_ex \<noteq> Some (stringify_ex diagram_ex)" by code_simp
  have h4: "fetch_of (Inr (Success 200 ''OK'' (Json accepted))) (push_request config_ex diagram_ex) =
     Inr (Success 200 ''OK'' (Json accepted))" by (simp add: fetch_of_def)
  have h5: "pr_success accepted" by (simp add: accepted_def)
  have e: "pushDiagram stringify_ex (Some config_ex) options_ex
        (fetch_of (Inr (Success 200 ''OK'' (Json accepted)))) diagram_ex world_ex =
     world_ex\<lparr>lastSyncedDiagramRef := Some (stringify_ex diagram_ex),
            network := [push_request config_ex diagram_ex],
            callbacks := [SyncSuccess ''d1'']\<rparr>" by code_simp
  have again: "pushDiagram stringify_ex (Some config_ex) options_ex
     (fetch_of (Inr (Success 200 ''OK'' (Json accepted)))) diagram_ex
     (pushDiagram stringify_ex (Some config_ex) options_ex
        (fetch_of (Inr (Success 200 ''OK'' (Json accepted)))) diagram_ex world_ex) =
     pushDiagram stringify_ex (Some config_ex) options_ex
        (fetch_of (Inr (Success 200 ''OK'' (Json accepted)))) diagram_ex world_ex"
    using push_twice_once[where stringify = stringify_ex and d = diagram_ex
        and fetch = "fetch_of (Inr (Success 200 ''OK'' (Json accepted)))"
        and fetch' = "fetch_of (Inr (Success 200 ''OK'' (Json accepted)))",
        OF h1 h2 h3 h4 h5]
    by blast
  from again e have "pushDiagram stringify_ex (Some config_ex) options_ex
     (fetch_of (Inr (Success 200 ''OK'' (Json accepted)))) diagram_ex
     (pushDiagram stringify_ex (Some config_ex) options_ex
        (fetch_of (Inr (Success 200 ''OK'' (Json accepted)))) diagram_ex world_ex) =
     world_ex\<lparr>lastSyncedDiagramRef := Some (stringify_ex diagram_ex),
            network := [push_request config_ex diagram_ex],
            callbacks := [SyncSuccess ''d1'']\<rparr>"
    by (rule trans)
  with h1 h2 h3 h5 show ?thesis by blast
qed

section \<open>Single flight\<close>

text \<open>\<open>pushDiagram\<close> is \<open>push_begin\<close> followed, when a request was issued, by \<open>push_settle\<close>.\<close>

lemma pushDiagram_split:
  "pushDiagram stringify syncService opts fetch d st =
     (case push_begin stringify syncService opts d st of
        (None, st1) \<Rightarrow> st1
      | (Some p, st1) \<Rightarrow> push_settle opts p (fetch (pp_request p)) st1)"
  by (simp add: pushDiagram_def push_begin_def push_settle_def service_push_def sync_off_def
      Let_def split: option.splits)

lemma after_push_clears: "\<not> isSyncingRef (after_push opts d j r st)"
  by (simp add: after_push_def split: sum.splits option.splits prod.splits)

text \<open>
  Claim C4.  A call made while the in-flight flag is set returns at once and changes
  nothing: no request, nothing queued.  The flag is clear when an attempt finishes:
  after \<open>push_settle\<close> whatever the outcome of the request, after a call skipped by
  change detection, and after every call of \<open>pushDiagram\<close> run to completion from a
  clear flag.  After an attempt has finished, a call with new content issues a
  request.
\<close>

theorem single_flight:
  "(isSyncingRef st \<longrightarrow>
      push_begin stringify syncService opts d st = (None, st) \<and>
      pushDiagram stringify syncService opts fetch d st = st) \<and>
   \<not> isSyncingRef (push_settle opts p outcome st) \<and>
   (\<not> isSyncingRef st \<and> lastSyncedDiagramRef st = Some (stringify d) \<longrightarrow>
      push_begin stringify syncService opts d st = (None, st)) \<and>
   \<not> isSyncingRef (pushDiagram stringify syncService opts fetch d (st\<lparr>isSyncingRef := False\<rparr>)) \<and>
   (\<not> sync_off (Some config) opts \<and>
    lastSyncedDiagramRef (push_settle opts p outcome st) \<noteq> Some (stringify d) \<longrightarrow>
      push_begin stringify (Some config) opts d (push_settle opts p outcome st) =
        (Some \<lparr> pp_diagram = d, pp_diagramJSON = stringify d,
                pp_request = push_request config d \<rparr>,
         (push_settle opts p outcome st)
           \<lparr>isSyncingRef := True,
            network := network (push_settle opts p outcome st) @ [push_request config d]\<rparr>))"
  by (auto simp: push_begin_def pushDiagram_def push_settle_def after_push_clears Let_def
      service_push_def split: option.splits prod.splits)

theorem single_flight_witness:
  "isSyncingRef world_busy \<and>
   push_begin stringify_ex (Some config_ex) options_ex diagram_ex world_busy = (None, world_busy) \<and>
   pushDiagram stringify_ex (Some config_ex) options_ex
     (fetch_of (Inr (Success 200 ''OK'' (Json accepted)))) diagram_ex world_busy = world_busy \<and>
   \<not> isSyncingRef world_synced \<and>
   lastSyncedDiagramRef world_synced = Some (stringify_ex diagram_ex) \<and>
   push_begin stringify_ex (Some config_ex) options_ex diagram_ex world_synced =
     (None, world_synced) \<and>
   \<not> sync_off (Some config_ex) options_ex \<and>
   lastSyncedDiagramRef
     (push_settle options_ex pending_ex (Inl (TypeError ''Failed to fetch'')) world_busy) \<noteq>
     Some (stringify_ex diagram_ex) \<and>
   \<not> isSyncingRef
     (push_settle options_ex pending_ex (Inl (TypeError ''Failed to fetch'')) world_busy) \<and>
   fst (push_begin stringify_ex (Some config_ex) options_ex diagram_ex
     (push_settle options_ex pending_ex (Inl (TypeError ''Failed to fetch'')) world_busy)) =
     Some pending_ex"
proof -
  have b: "isSyncingRef world_busy" by code_simp
  have s1: "\<not> isSyncingRef world_synced" by code_simp
  have s2: "lastSyncedDiagramRef world_synced = Some (stringify_ex diagram_ex)" by code_simp
  have h1: "\<not> sync_off (Some config_ex) options_ex" by code_simp
  have f: "lastSyncedDiagramRef
     (push_settle options_ex pending_ex (Inl (TypeError ''Failed to fetch'')) world_busy) \<noteq>
     Some (stringify_ex diagram_ex)" by code_simp
  note t1 = single_flight[where st = world_busy and stringify = stringify_ex
      and syncService = "Some config_ex" and config = config_ex and opts = options_ex
      and d = diagram_ex and p = pending_ex
      and fetch = "fetch_of (Inr (Success 200 ''OK'' (Json accepted)))"
      and outcome = "Inl (TypeError ''Failed to fetch'')"]
  note t2 = single_flight[where st = world_synced and stringify = stringify_ex
      and syncService = "Some config_ex" and config = config_ex and opts = options_ex
      and d = diagram_ex and p = pending_ex
      and fetch = "fetch_of (Inr (Success 200 ''OK'' (Json accepted)))"
      and outcome = "Inl (TypeError ''Failed to fetch'')"]
  have a1: "push_begin stringify_ex (Some config_ex) options_ex diagram_ex world_busy =
      (None, world_busy) \<and>
    pushDiagram stringify_ex (Some config_ex) options_ex
     (fetch_of (Inr (Success 200 ''OK'' (Json accepted)))) diagram_ex world_busy = world_busy"
    using t1 b by blast
  have a2: "\<not> isSyncingRef
     (push_settle options_ex pending_ex (Inl (TypeError ''Failed to fetch'')) world_busy)"
    using t1 by blast
  have a3: "push_begin stringify_ex (Some config_ex) options_ex diagram_ex world_synced =
     (None, world_synced)"
    using t2 s1 s2 by blast
  have a4: "fst (push_begin stringify_ex (Some config_ex) options_ex diagram_ex
     (push_settle options_ex pending_ex (Inl (TypeError ''Failed to fetch'')) world_busy)) =
     Some \<lparr> pp_diagram = diagram_ex, pp_diagramJSON = stringify_ex diagram_ex,
            pp_request = push_request config_ex diagram_ex \<rparr>"
    using t1 h1 f by simp
  show ?thesis
    using a1 a2 a3 a4 b s1 s2 h1 f unfolding pending_ex_def by blast
qed

section \<open>The disabled client\<close>

text \<open>
  Claim C5.  With the flag \<open>enabled\<close> false or the endpoint empty, \<open>push\<close>, \<open>pull\<close> and
  \<open>listDiagrams\<close> of the client signal \<open>Sync service is not enabled\<close> and issue no
  request; \<open>pushDiagram\<close> changes nothing, \<open>pullDiagram\<close> returns the absent outcome
  and \<open>listDiagrams\<close> of the hook the empty list, with no request and no callback.
\<close>

theorem disabled_short_circuit:
  assumes "\<not> cfg_enabled config \<or> cfg_apiUrl config = []"
  shows "service_push config fetch_push d net = (Inl (Error ''Sync service is not enabled''), net) \<and>
    service_pull config clk fetch_pull diagramId net =
      (Inl (Error ''Sync service is not enabled''), net) \<and>
    service_listDiagrams config fetch_list net =
      (Inl (Error ''Sync service is not enabled''), net) \<and>
    pushDiagram stringify (Some config) opts fetch_push d st = st \<and>
    pullDiagram stringify (Some config) opts clk fetch_pull diagramId st = (None, st) \<and>
    listRemoteDiagrams (Some config) opts fetch_list st = ([], st)"
proof -
  have off: "\<not> isEnabled config" using assms by (auto simp: isEnabled_def)
  then have "sync_off (Some config) opts" by (simp add: sync_off_def)
  with off show ?thesis
    by (simp add: service_push_def service_pull_def service_listDiagrams_def not_enabled_def
        pushDiagram_def pullDiagram_def listRemoteDiagrams_def)
qed

theorem disabled_short_circuit_witness:
  "\<not> cfg_enabled config_off \<and>
   service_push config_off (fetch_of (Inr (Success 200 ''OK'' (Json accepted)))) diagram_ex [] =
     (Inl (Error ''Sync service is not enabled''), []) \<and>
   service_pull config_off clock_ex (fetch_of (Inl (TypeError ''Failed to fetch''))) ''d1'' [] =
     (Inl (Error ''Sync service is not enabled''), []) \<and>
   service_listDiagrams config_off (fetch_of (Inr (Success 200 ''OK'' (Json [remote_a])))) [] =
     (Inl (Error ''Sync service is not enabled''), []) \<and>
   pushDiagram stringify_ex (Some config_off) options_ex
     (fetch_of (Inr (Success 200 ''OK'' (Json accepted)))) diagram_ex world_ex = world_ex \<and>
   pullDiagram stringify_ex (Some config_off) options_ex clock_ex
     (fetch_of (Inl (TypeError ''Failed to fetch''))) ''d1'' world_ex = (None, world_ex) \<and>
   listRemoteDiagrams (Some config_off) options_ex
     (fetch_of (Inr (Success 200 ''OK'' (Json [remote_a])))) world_ex = ([], world_ex)"
proof -
  have h: "\<not> cfg_enabled config_off" by (simp add: config_off_def)
  then have h': "\<not> cfg_enabled config_off \<or> cfg_apiUrl config_off = []" by (rule disjI1)
  from h disabled_short_circuit[OF h', where fetch_push = "fetch_of (Inr (Success 200 ''OK'' (Json accepted)))"
      and d = diagram_ex and net = "[]" and clk = clock_ex
      and fetch_pull = "fetch_of (Inl (TypeError ''Failed to fetch''))" and diagramId = "''d1''"
      and fetch_list = "fetch_of (Inr (Success 200 ''OK'' (Json [remote_a])))"
      and stringify = stringify_ex and opts = options_ex and st = world_ex]
  show ?thesis by blast
qed

section \<open>Pull\<close>

text \<open>
  Claim C6.  With sync on: a pull answered with status 404 makes the client return
  \<open>null\<close> and \<open>pullDiagram\<close> return the absent outcome without calling the error
  callback; a pull answered with another status that is not a success, or whose
  \<open>fetch\<close> throws, makes \<open>pullDiagram\<close> call the error callback (if supplied) with the
  failure and return the absent outcome.
\<close>

theorem pull_not_found:
  assumes "\<not> sync_off (Some config) opts"
  shows "(fetch (pull_request config diagramId) = Inr r \<and> status r = 404 \<longrightarrow>
       service_pull config clk fetch diagramId net =
         (Inr None, net @ [pull_request config diagramId]) \<and>
       pullDiagram stringify (Some config) opts clk fetch diagramId st =
         (None, st\<lparr>network := network st @ [pull_request config diagramId]\<rparr>)) \<and>
     (fetch (pull_request config diagramId) = Inr (Failure s stext body) \<and> s \<noteq> 404 \<longrightarrow>
       pullDiagram stringify (Some config) opts clk fetch diagramId st =
         (None, st\<lparr>network := network st @ [pull_request config diagramId],
                   callbacks := callbacks st @
                     (if opt_onSyncError opts
                      then [SyncError (not_ok ''Failed to pull diagram'' s stext body)]
                      else [])\<rparr>)) \<and>
     (fetch (pull_request config diagramId) = Inl e \<longrightarrow>
       pullDiagram stringify (Some config) opts clk fetch diagramId st =
         (None, st\<lparr>network := network st @ [pull_request config diagramId],
                   callbacks := callbacks st @
                     (if opt_onSyncError opts then [SyncError e] else [])\<rparr>))"
  using assms
  by (auto simp: sync_off_def pullDiagram_def service_pull_def pull_result_def
      call_onSyncError_def)

theorem pull_not_found_witness:
  "\<not> sync_off (Some config_ex) options_ex \<and>
   status (Failure 404 ''Not Found'' (Json None) :: backend_diagram response) = 404 \<and>
   service_pull config_ex clock_ex (fetch_of (Inr (Failure 404 ''Not Found'' (Json None)))) ''d9'' [] =
     (Inr None, [pull_request config_ex ''d9'']) \<and>
   pullDiagram stringify_ex (Some config_ex) options_ex clock_ex
     (fetch_of (Inr (Failure 404 ''Not Found'' (Json None)))) ''d9'' world_ex =
     (None, world_ex\<lparr>network := [pull_request config_ex ''d9'']\<rparr>) \<and>
   pullDiagram stringify_ex (Some config_ex) options_ex clock_ex
     (fetch_of (Inr (Failure 503 ''Service Unavailable'' (Json (Some ''down''))))) ''d9'' world_ex =
     (None, world_ex\<lparr>network := [pull_request config_ex ''d9''],
                      callbacks := [SyncError (Error ''down'')]\<rparr>) \<and>
   pullDiagram stringify_ex (Some config_ex) options_ex clock_ex
     (fetch_of (Inl (TypeError ''Failed to fetch''))) ''d9'' world_ex =
     (None, world_ex\<lparr>network := [pull_request config_ex ''d9''],
                      callbacks := [SyncError (TypeError ''Failed to fetch'')]\<rparr>)"
proof -
  have h1: "\<not> sync_off (Some config_ex) options_ex" by code_simp
  have e: "opt_onSyncError options_ex" "network world_ex = []" "callbacks world_ex = []"
    "not_ok ''Failed to pull diagram'' 503 ''Service Unavailable'' (Json (Some ''down'')) =
       Error ''down''"
    by (simp_all add: options_ex_def world_ex_def not_ok_def json_or_status_line_def error_of_def)
  have "service_pull config_ex clock_ex (fetch_of (Inr (Failure 404 ''Not Found'' (Json None)))) ''d9'' [] =
     (Inr None, [] @ [pull_request config_ex ''d9'']) \<and>
   pullDiagram stringify_ex (Some config_ex) options_ex clock_ex
     (fetch_of (Inr (Failure 404 ''Not Found'' (Json None)))) ''d9'' world_ex =
     (None, world_ex\<lparr>network := network world_ex @ [pull_request config_ex ''d9'']\<rparr>)"
    using pull_not_found[OF h1, where fetch = "fetch_of (Inr (Failure 404 ''Not Found'' (Json None)))"
        and diagramId = "''d9''" and r = "Failure 404 ''Not Found'' (Json None)" and clk = clock_ex
        and net = "[]" and stringify = stringify_ex and st = world_ex]
    by (simp add: fetch_of_def)
  moreover have "pullDiagram stringify_ex (Some config_ex) options_ex clock_ex
     (fetch_of (Inr (Failure 503 ''Service Unavailable'' (Json (Some ''down''))))) ''d9'' world_ex =
     (None, world_ex\<lparr>network := network world_ex @ [pull_request config_ex ''d9''],
                      callbacks := callbacks world_ex @
       (if opt_onSyncError options_ex
        then [SyncError (not_ok ''Failed to pull diagram'' 503 ''Service Unavailable'' (Json (Some ''down'')))]
        else [])\<rparr>)"
    using pull_not_found[OF h1, where fetch = "fetch_of (Inr (Failure 503 ''Service Unavailable'' (Json (Some ''down''))))"
        and diagramId = "''d9''" and s = "503" and stext = "''Service Unavailable''"
        and body = "Json (Some ''down'')" and clk = clock_ex
        and stringify = stringify_ex and st = world_ex]
    by (simp add: fetch_of_def)
  moreover have "pullDiagram stringify_ex (Some config_ex) options_ex clock_ex
     (fetch_of (Inl (TypeError ''Failed to fetch''))) ''d9'' world_ex =
     (None, world_ex\<lparr>network := network world_ex @ [pull_request config_ex ''d9''],
                      callbacks := callbacks world_ex @
       (if opt_onSyncError options_ex then [SyncError (TypeError ''Failed to fetch'')] else [])\<rparr>)"
    using pull_not_found[OF h1, where fetch = "fetch_of (Inl (TypeError ''Failed to fetch''))"
        and diagramId = "''d9''" and e = "TypeError ''Failed to fetch''" and clk = clock_ex
        and stringify = stringify_ex and st = world_ex]
    by (simp add: fetch_of_def)
  ultimately show ?thesis using h1 by (simp add: e)
qed

section \<open>Startup\<close>

lemma add_missing_filter:
  "add_missing ids rs st = st @ map from_remote (filter (\<lambda>r. dli_id r \<notin> ids) rs)"
  by (induction rs arbitrary: st) (simp_all add: addDiagram_def)

lemma reconcile_listed:
  assumes "isEnabled config"
    "fetch (list_request config) = Inr (Success s stext (Json remote))"
  shows "reconcile (Some config) fetch w =
     w\<lparr>sync := (sync w)\<lparr>network := network (sync w) @ [list_request config]\<rparr>,
       store := store w @ map from_remote
         (filter (\<lambda>r. dli_id r \<notin> set (map dg_id (store w))) (map list_item remote))\<rparr>"
  using assms
  by (cases "remote = []")
     (simp_all add: reconcile_def listRemoteDiagrams_def sync_off_def default_options_def
       service_listDiagrams_def list_result_def add_missing_filter storage_listDiagrams_def)

text \<open>
  Claim C7.  Startup without an explicit identifier and without a default that loads,
  sync being on: with the local catalog holding \<open>A\<close> and the remote list holding an
  entry with the id of \<open>A\<close> and an entry \<open>B\<close> with another id, the local catalog afterwards
  holds \<open>A\<close>, as it was, and one new entry made of the id, name, database type,
  database edition and the two timestamps of \<open>B\<close>, with no collection.
\<close>

theorem catalog_merge:
  assumes "\<not> truthy diagramId"
    "(if truthy defaultDiagramId then loadDiagram (the defaultDiagramId) (store w) else None) = None"
    "store w = [A]" "isEnabled config"
    "fetch (list_request config) = Inr (Success s stext (Json remote))"
    "remote = [rA, rB] \<or> remote = [rB, rA]"
    "li_id rA = dg_id A" "li_id rB \<noteq> dg_id A"
  shows "store (loadDefaultDiagram (Some config) fetch diagramId defaultDiagramId w) =
     [A, \<lparr> dg_id = li_id rB, dg_name = li_name rB,
            dg_databaseType = li_database_type rB,
            dg_databaseEdition = li_database_edition rB,
            dg_createdAt = new_Date (li_created_at rB),
            dg_updatedAt = new_Date (li_updated_at rB),
            dg_tables = None, dg_relationships = None, dg_dependencies = None,
            dg_areas = None, dg_customTypes = None, dg_notes = None \<rparr>]"
proof -
  have "loadDefaultDiagram (Some config) fetch diagramId defaultDiagramId w =
      prompt (reconcile (Some config) fetch w)"
    using assms(1,2) by (simp add: loadDefaultDiagram_def)
  moreover have "store (prompt w') = store w'" for w'
    by (simp add: prompt_def emit_def)
  ultimately have "store (loadDefaultDiagram (Some config) fetch diagramId defaultDiagramId w) =
      store (reconcile (Some config) fetch w)" by simp
  then show ?thesis
    using assms(3,6,7,8)
    by (auto simp: reconcile_listed[where fetch = fetch, OF assms(4,5)] from_remote_def list_item_def)
qed

theorem catalog_merge_witness:
  "\<not> truthy None \<and> isEnabled config_ex \<and> store loader_ex = [diagram_ex] \<and>
   li_id remote_a = dg_id diagram_ex \<and> li_id remote_b \<noteq> dg_id diagram_ex \<and>
   store (loadDefaultDiagram (Some config_ex)
     (fetch_of (Inr (Success 200 ''OK'' (Json [remote_a, remote_b])))) None None loader_ex) =
     [diagram_ex,
      \<lparr> dg_id = ''d2'', dg_name = ''blog'', dg_databaseType = ''mysql'',
        dg_databaseEdition = Some ''mysql_8'', dg_createdAt = Date 4000,
        dg_updatedAt = Date 5000,
        dg_tables = None, dg_relationships = None, dg_dependencies = None,
        dg_areas = None, dg_customTypes = None, dg_notes = None \<rparr>]"
proof -
  have h1: "\<not> truthy None" by (simp add: truthy_def)
  have h2: "(if truthy None then loadDiagram (the None) (store loader_ex) else None) = None"
    using h1 by simp
  have h3: "store loader_ex = [diagram_ex]" by (simp add: loader_ex_def)
  have h4: "isEnabled config_ex" by code_simp
  have h5: "fetch_of (Inr (Success 200 ''OK'' (Json [remote_a, remote_b]))) (list_request config_ex) =
     Inr (Success 200 ''OK'' (Json [remote_a, remote_b]))" by (simp add: fetch_of_def)
  have h6: "[remote_a, remote_b] = [remote_a, remote_b] \<or> [remote_a, remote_b] = [remote_b, remote_a]"
    by simp
  have h7: "li_id remote_a = dg_id diagram_ex" by code_simp
  have h8: "li_id remote_b \<noteq> dg_id diagram_ex" by code_simp
  have v: "li_id remote_b = ''d2''" "li_name remote_b = ''blog''"
    "li_database_type remote_b = ''mysql''" "li_database_edition remote_b = Some ''mysql_8''"
    "new_Date (li_created_at remote_b) = Date 4000" "new_Date (li_updated_at remote_b) = Date 5000"
    by (simp_all add: remote_b_def)
  from catalog_merge[where diagramId = None and defaultDiagramId = None and w = loader_ex
      and fetch = "fetch_of (Inr (Success 200 ''OK'' (Json [remote_a, remote_b])))",
      OF h1 h2 h3 h4 h5 h6 h7 h8]
  show ?thesis using h1 h3 h4 h7 h8 by (simp add: v)
qed

text \<open>
  Claim C8.  Startup with an explicit identifier that the local catalog does not hold:
  the loader is shown, the histories are reset, the prompt to open a diagram is opened
  with \<open>canClose\<close> false, the loader is hidden, and that is all; no request is issued,
  the catalog is not touched and the prompt to create a diagram is not opened.
\<close>

theorem explicit_id_missing:
  assumes "truthy diagramId" "loadDiagram (the diagramId) (store w) = None"
  shows "loadDefaultDiagram syncService fetch diagramId defaultDiagramId w =
     w\<lparr>ui := ui w @ [SetInitialDiagram None, ShowLoader, ResetRedoStack, ResetUndoStack,
                     OpenOpenDiagramDialog False, HideLoader]\<rparr>"
  using assms by (simp add: loadDefaultDiagram_def emit_def Let_def)

theorem explicit_id_missing_witness:
  "truthy (Some ''x1'') \<and> loadDiagram ''x1'' (store loader_ex) = None \<and>
   loadDefaultDiagram (Some config_ex)
     (fetch_of (Inr (Success 200 ''OK'' (Json [remote_a, remote_b])))) (Some ''x1'') (Some ''d1'')
     loader_ex =
   loader_ex\<lparr>ui := [SetInitialDiagram None, ShowLoader, ResetRedoStack, ResetUndoStack,
                     OpenOpenDiagramDialog False, HideLoader]\<rparr>"
proof -
  have h1: "truthy (Some ''x1'')" by (simp add: truthy_def)
  have h2: "loadDiagram (the (Some ''x1'')) (store loader_ex) = None" by code_simp
  have u: "ui loader_ex = []" by (simp add: loader_ex_def)
  from explicit_id_missing[where diagramId = "Some ''x1''" and w = loader_ex
      and syncService = "Some config_ex" and defaultDiagramId = "Some ''d1''"
      and fetch = "fetch_of (Inr (Success 200 ''OK'' (Json [remote_a, remote_b])))", OF h1 h2]
  show ?thesis using h1 h2 by (simp add: u)
qed

end
